theory Spec2Isabelle
  imports Main
begin

section \<open>Relationship mutation API augmentation (src/augment/types/relationship/mutation.js)\<close>

text \<open>
  A shallow embedding of the schema-augmentation pass that synthesizes the \<open>Add...\<close> and
  \<open>Remove...\<close> Mutation fields of a relationship, their payload types and the property
  input type. JavaScript's in-place mutation of the registries is explicit state passing:
  every function takes the maps it mutates and returns them updated. A raised
  \<open>TypeError\<close> is the left summand of the result.
\<close>

subsection \<open>Errors and strings\<close>

datatype error = TypeError

text \<open>
  \<open>String.prototype.toUpperCase\<close> and \<open>toLowerCase\<close>. A \<open>char\<close> is a code unit below 256
  (ASCII and Latin-1), and a string is the list of its code units.

  Upper case of one code unit: the letters \<open>a..z\<close> (97..122) and the Latin-1 letters
  224..254 other than the division sign 247 move down by 32; the sharp s (223) becomes the
  two units \<open>SS\<close>; every other unit is unchanged. The capitals of the micro sign (181) and
  of y with diaeresis (255) are U+039C and U+0178, which are not code units below 256: the
  model leaves the result for these two units unspecified, and nothing is stated about
  them.

  Lower case of one code unit: the letters \<open>A..Z\<close> (65..90) and the Latin-1 capitals
  192..222 other than the multiplication sign 215 move up by 32; every other unit is
  unchanged.
\<close>

definition toUpperCase_char :: "char \<Rightarrow> string" where
  "toUpperCase_char c =
     (let n = (of_char c :: nat) in
      if (97 \<le> n \<and> n \<le> 122) \<or> (224 \<le> n \<and> n \<le> 254 \<and> n \<noteq> 247)
      then [char_of (n - 32)]
      else if n = 223 then ''SS''
      else if n = 181 \<or> n = 255 then undefined
      else [c])"

definition toLowerCase_char :: "char \<Rightarrow> string" where
  "toLowerCase_char c =
     (let n = (of_char c :: nat) in
      if (65 \<le> n \<and> n \<le> 90) \<or> (192 \<le> n \<and> n \<le> 222 \<and> n \<noteq> 215)
      then [char_of (n + 32)]
      else [c])"

definition toUpperCase :: "string \<Rightarrow> string" where
  "toUpperCase s = concat (map toUpperCase_char s)"

definition toLowerCase :: "string \<Rightarrow> string" where
  "toLowerCase s = concat (map toLowerCase_char s)"

subsection \<open>Constants of the collaborating modules\<close>

text \<open>
  Modelled from the spec: the constants \<open>OperationType.MUTATION\<close> (module types/types),
  \<open>RelationshipDirectionField.FROM\<close> and \<open>.TO\<close> (module relationship) are not in the
  source file. The spec names the Mutation entry of the operation-type map and the fixed
  direction keys \<open>from\<close> and \<open>to\<close>.
\<close>

definition OperationType_MUTATION :: string where
  "OperationType_MUTATION = ''Mutation''"

definition RelationshipDirectionField_FROM :: string where
  "RelationshipDirectionField_FROM = ''from''"

definition RelationshipDirectionField_TO :: string where
  "RelationshipDirectionField_TO = ''to''"

text \<open>
  Modelled from the spec: the enumerations \<open>TypeWrappers\<close> (module fields) and
  \<open>DirectiveDefinition\<close> (module directives) are not in the source file. The file reads
  one wrapper key (\<open>NON_NULL_NAMED_TYPE\<close>) and two directive names (\<open>CYPHER\<close>,
  \<open>HAS_SCOPE\<close>); every other key or name a descriptor may carry is kept by its text.
\<close>

datatype TypeWrapper = NON_NULL_NAMED_TYPE | OTHER_WRAPPER string

datatype DirectiveDefinition =
  CYPHER | HAS_SCOPE | MUTATION_META | RELATION | OTHER_DIRECTIVE string

text \<open>The enum \<open>RelationshipMutation\<close> of the source: labels that are also branch keys.\<close>

definition RelationshipMutation_CREATE :: string where
  "RelationshipMutation_CREATE = ''Add''"

definition RelationshipMutation_DELETE :: string where
  "RelationshipMutation_DELETE = ''Remove''"

text \<open>\<open>Object.values(RelationshipMutation)\<close>: the values in insertion order.\<close>

definition RelationshipMutation_values :: "string list" where
  "RelationshipMutation_values = [RelationshipMutation_CREATE, RelationshipMutation_DELETE]"

subsection \<open>AST nodes and their constructors\<close>

text \<open>
  Modelled from the spec: the AST constructors of module ast (\<open>buildName\<close>,
  \<open>buildNamedType\<close>, \<open>buildInputValue\<close>, \<open>buildField\<close>, \<open>buildObjectType\<close>,
  \<open>buildInputObjectType\<close>) and the directive constructors of module directives
  (\<open>buildMutationMetaDirective\<close>, \<open>buildRelationDirective\<close>,
  \<open>buildAuthScopeDirective\<close>) are not in the source file. The spec describes them as
  pure constructors that return fresh immutable nodes; each node below stores the
  arguments its constructor is given, and a part the caller leaves out is empty.
\<close>

datatype NameNode = NameNode (name_value: string)

definition buildName :: "string \<Rightarrow> NameNode" where
  "buildName n = NameNode n"

text \<open>
  The argument object of \<open>buildNamedType\<close>: a type name and the wrapper keys set to true.
  A property input value carries such an object as its \<open>type\<close>.
\<close>

record NamedTypeArgs =
  nt_name :: string
  nt_wrappers :: "TypeWrapper set"

datatype TypeNode = NamedTypeNode (type_name: NameNode) (type_wrappers: "TypeWrapper set")

definition buildNamedType :: "NamedTypeArgs \<Rightarrow> TypeNode" where
  "buildNamedType a = NamedTypeNode (buildName (nt_name a)) (nt_wrappers a)"

datatype Scope = Scope (scope_typeName: string) (scope_mutation: string)

datatype Directive =
    MutationMetaDirective string string string
  | RelationDirective string string string
  | AuthScopeDirective "Scope list"
  | DeclaredDirective DirectiveDefinition "(string \<times> string) list"

definition buildMutationMetaDirective :: "string \<Rightarrow> string \<Rightarrow> string \<Rightarrow> Directive" where
  "buildMutationMetaDirective relationshipName fromType toType =
     MutationMetaDirective relationshipName fromType toType"

definition buildRelationDirective :: "string \<Rightarrow> string \<Rightarrow> string \<Rightarrow> Directive" where
  "buildRelationDirective relationshipName fromType toType =
     RelationDirective relationshipName fromType toType"

definition buildAuthScopeDirective :: "Scope list \<Rightarrow> Directive" where
  "buildAuthScopeDirective scopes = AuthScopeDirective scopes"

fun directive_name :: "Directive \<Rightarrow> DirectiveDefinition" where
  "directive_name (MutationMetaDirective _ _ _) = MUTATION_META"
| "directive_name (RelationDirective _ _ _) = RELATION"
| "directive_name (AuthScopeDirective _) = HAS_SCOPE"
| "directive_name (DeclaredDirective n _) = n"

record InputValueDefinition =
  iv_name :: NameNode
  iv_type :: TypeNode
  iv_directives :: "Directive list"

definition buildInputValue :: "NameNode \<Rightarrow> TypeNode \<Rightarrow> InputValueDefinition" where
  "buildInputValue n t = \<lparr>iv_name = n, iv_type = t, iv_directives = []\<rparr>"

record FieldDefinition =
  fd_name :: NameNode
  fd_type :: TypeNode
  fd_arguments :: "InputValueDefinition list"
  fd_directives :: "Directive list"

definition buildField ::
  "NameNode \<Rightarrow> TypeNode \<Rightarrow> InputValueDefinition list \<Rightarrow> Directive list \<Rightarrow> FieldDefinition" where
  "buildField n t args directives =
     \<lparr>fd_name = n, fd_type = t, fd_arguments = args, fd_directives = directives\<rparr>"

record ObjectTypeDefinition =
  ot_name :: NameNode
  ot_fields :: "FieldDefinition list"
  ot_directives :: "Directive list"

definition buildObjectType ::
  "NameNode \<Rightarrow> FieldDefinition list \<Rightarrow> Directive list \<Rightarrow> ObjectTypeDefinition" where
  "buildObjectType n fs directives =
     \<lparr>ot_name = n, ot_fields = fs, ot_directives = directives\<rparr>"

record InputObjectTypeDefinition =
  iot_name :: NameNode
  iot_fields :: "InputValueDefinition list"

definition buildInputObjectType ::
  "NameNode \<Rightarrow> InputValueDefinition list \<Rightarrow> InputObjectTypeDefinition" where
  "buildInputObjectType n fs = \<lparr>iot_name = n, iot_fields = fs\<rparr>"

datatype TypeDefinition =
    ObjectTypeDef ObjectTypeDefinition
  | InputObjectTypeDef InputObjectTypeDefinition

subsection \<open>Lookup helpers of the collaborating modules\<close>

text \<open>
  Modelled from the spec: \<open>getFieldDefinition\<close> (module fields), \<open>getDirective\<close> and
  \<open>isCypherField\<close> (module directives) are not in the source file. The spec gives
  \<open>getDirective(directives[], name) -> Directive|undefined\<close> and
  \<open>isCypherField(directives[]) -> boolean\<close> (the definition carries the computed-value
  directive), and has the guard of the orchestrator look for a field of that exact name
  in the Mutation field list.
\<close>

definition getFieldDefinition :: "FieldDefinition list \<Rightarrow> string \<Rightarrow> FieldDefinition option" where
  "getFieldDefinition fs n = find (\<lambda>field. name_value (fd_name field) = n) fs"

definition getDirective :: "Directive list \<Rightarrow> DirectiveDefinition \<Rightarrow> Directive option" where
  "getDirective directives n = find (\<lambda>directive. directive_name directive = n) directives"

definition isCypherField :: "Directive list \<Rightarrow> bool" where
  "isCypherField directives = (getDirective directives CYPHER \<noteq> None)"

subsection \<open>The descriptor, the registries and the external collaborators\<close>

text \<open>An entry of \<open>propertyInputValues\<close>: the source reads its name, type and directives.\<close>

record PropertyInputValue =
  piv_name :: string
  piv_type :: NamedTypeArgs
  piv_directives :: "Directive list"

record RelationshipDescriptor =
  typeName :: string
  fieldName :: string
  outputType :: string
  fromType :: string
  toType :: string
  relationshipName :: string
  propertyInputValues :: "PropertyInputValue list"
  propertyOutputFields :: "FieldDefinition list"

type_synonym GeneratedTypeMap = "string \<rightharpoonup> TypeDefinition"

text \<open>
  An entry of the operation-type map is a field container; the source reads and extends
  its \<open>fields\<close> only.
\<close>

type_synonym OperationTypeMap = "string \<rightharpoonup> ObjectTypeDefinition"

text \<open>
  The functions of other modules whose result depends on the configuration or on the
  query-side pass are parameters of the model: the applicability predicate
  \<open>shouldAugmentRelationshipField(config, operation, fromType, toType)\<close>, the
  authorization switch \<open>useAuthDirective(config, directiveName)\<close> and the query-side
  builder \<open>buildNodeOutputFields(fromType, toType)\<close>. The configuration is opaque.
\<close>

record 'cfg Collaborators =
  shouldAugmentRelationshipField :: "'cfg \<Rightarrow> string \<Rightarrow> string \<Rightarrow> string \<Rightarrow> bool"
  useAuthDirective :: "'cfg \<Rightarrow> DirectiveDefinition \<Rightarrow> bool"
  buildNodeOutputFields :: "string \<Rightarrow> string \<Rightarrow> FieldDefinition list"

subsection \<open>The functions of the source file\<close>

text \<open>
  \<open>buildRelationshipMutationName\<close>: \<open>fieldName[0]\<close> of the empty string is
  \<open>undefined\<close>, and calling \<open>toUpperCase\<close> on it raises a TypeError.
\<close>

definition buildRelationshipMutationName :: "string \<Rightarrow> string \<Rightarrow> string \<Rightarrow> error + string" where
  "buildRelationshipMutationName mutationAction tName fName =
     (case fName of
        [] \<Rightarrow> Inl TypeError
      | c # cs \<Rightarrow> Inr (mutationAction @ tName @ (toUpperCase [c] @ cs)))"

definition buildNodeSelectionArguments :: "string \<Rightarrow> string \<Rightarrow> InputValueDefinition list" where
  "buildNodeSelectionArguments fromT toT =
     [buildInputValue (buildName RelationshipDirectionField_FROM)
        (buildNamedType \<lparr>nt_name = ''_'' @ fromT @ ''Input'',
                         nt_wrappers = {NON_NULL_NAMED_TYPE}\<rparr>),
      buildInputValue (buildName RelationshipDirectionField_TO)
        (buildNamedType \<lparr>nt_name = ''_'' @ toT @ ''Input'',
                         nt_wrappers = {NON_NULL_NAMED_TYPE}\<rparr>)]"

definition buildRelationshipPropertyInputArgument :: "string \<Rightarrow> InputValueDefinition" where
  "buildRelationshipPropertyInputArgument outT =
     buildInputValue (buildName ''data'')
       (buildNamedType \<lparr>nt_name = ''_'' @ outT @ ''Input'',
                        nt_wrappers = {NON_NULL_NAMED_TYPE}\<rparr>)"

definition buildRelationshipMutationArguments ::
  "string \<Rightarrow> string \<Rightarrow> string \<Rightarrow> FieldDefinition list \<Rightarrow> string \<Rightarrow> InputValueDefinition list" where
  "buildRelationshipMutationArguments mutationAction fromT toT propertyOutputFs outT =
     (let fieldArguments = buildNodeSelectionArguments fromT toT in
      if mutationAction = RelationshipMutation_CREATE \<and> propertyOutputFs \<noteq> []
      then fieldArguments @ [buildRelationshipPropertyInputArgument outT]
      else fieldArguments)"

definition buildRelationshipMutationDirectives ::
  "'cfg Collaborators \<Rightarrow> string \<Rightarrow> string \<Rightarrow> string \<Rightarrow> string \<Rightarrow> FieldDefinition list \<Rightarrow> 'cfg
     \<Rightarrow> Directive list" where
  "buildRelationshipMutationDirectives X mutationAction relName fromT toT propertyOutputFs config =
     (let mutationMetaDirective = buildMutationMetaDirective relName fromT toT;
          directives = [mutationMetaDirective]
      in if useAuthDirective X config HAS_SCOPE
         then (let authAction =
                     (if mutationAction = RelationshipMutation_CREATE then ''Create''
                      else if mutationAction = RelationshipMutation_DELETE then ''Delete''
                      else '''')
               in if authAction \<noteq> []
                  then directives @
                         [buildAuthScopeDirective
                            [Scope fromT authAction, Scope toT authAction]]
                  else directives)
         else directives)"

text \<open>
  \<open>buildRelationshipMutationField\<close> pushes the new field onto the field list of the
  Mutation entry; reading \<open>.fields\<close> of a missing entry raises a TypeError.
\<close>

definition buildRelationshipMutationField ::
  "'cfg Collaborators \<Rightarrow> string \<Rightarrow> string \<Rightarrow> string \<Rightarrow> string \<Rightarrow> string \<Rightarrow> FieldDefinition list
     \<Rightarrow> string \<Rightarrow> string \<Rightarrow> OperationTypeMap \<Rightarrow> 'cfg \<Rightarrow> error + OperationTypeMap" where
  "buildRelationshipMutationField X mutationAction mutationName relName fromT toT
       propertyOutputFs mutationOutputType outT operationTypeMap config =
     (if mutationAction = RelationshipMutation_CREATE \<or>
         mutationAction = RelationshipMutation_DELETE
      then (case operationTypeMap OperationType_MUTATION of
              None \<Rightarrow> Inl TypeError
            | Some mutationType \<Rightarrow>
                Inr (operationTypeMap(OperationType_MUTATION \<mapsto>
                  mutationType\<lparr>ot_fields := ot_fields mutationType @
                    [buildField (buildName mutationName)
                       (buildNamedType \<lparr>nt_name = mutationOutputType, nt_wrappers = {}\<rparr>)
                       (buildRelationshipMutationArguments mutationAction fromT toT
                          propertyOutputFs outT)
                       (buildRelationshipMutationDirectives X mutationAction relName fromT toT
                          propertyOutputFs config)]\<rparr>)))
      else Inr operationTypeMap)"

definition buildRelationshipMutationPropertyInputType ::
  "string \<Rightarrow> string \<Rightarrow> PropertyInputValue list \<Rightarrow> GeneratedTypeMap \<Rightarrow> GeneratedTypeMap" where
  "buildRelationshipMutationPropertyInputType mutationAction outT propertyInputVs generatedTypeMap =
     (if mutationAction = RelationshipMutation_CREATE \<and> propertyInputVs \<noteq> []
      then (let nonComputedPropertyInputFields =
                  filter (\<lambda>field. getDirective (piv_directives field) CYPHER = None)
                    propertyInputVs;
                inputTypeName = ''_'' @ outT @ ''Input''
            in generatedTypeMap(inputTypeName \<mapsto>
                 InputObjectTypeDef
                   (buildInputObjectType (buildName inputTypeName)
                      (map (\<lambda>inputValue.
                              buildInputValue (buildName (piv_name inputValue))
                                (buildNamedType (piv_type inputValue)))
                         nonComputedPropertyInputFields))))
      else generatedTypeMap)"

definition buildRelationshipMutationOutputType ::
  "'cfg Collaborators \<Rightarrow> string \<Rightarrow> string \<Rightarrow> FieldDefinition list \<Rightarrow> string \<Rightarrow> string \<Rightarrow> string
     \<Rightarrow> GeneratedTypeMap \<Rightarrow> GeneratedTypeMap" where
  "buildRelationshipMutationOutputType X mutationAction mutationOutputType propertyOutputFs
       relName fromT toT generatedTypeMap =
     (if mutationAction = RelationshipMutation_CREATE \<or>
         mutationAction = RelationshipMutation_DELETE
      then (let relationTypeDirective = buildRelationDirective relName fromT toT;
                fields0 = buildNodeOutputFields X fromT toT;
                fields1 =
                  (if mutationAction = RelationshipMutation_CREATE
                   then fields0 @
                          map (\<lambda>field. if isCypherField (fd_directives field)
                                        then field\<lparr>fd_arguments := []\<rparr>
                                        else field)
                            propertyOutputFs
                   else fields0)
            in generatedTypeMap(mutationOutputType \<mapsto>
                 ObjectTypeDef
                   (buildObjectType (buildName mutationOutputType) fields1
                      [relationTypeDirective])))
      else generatedTypeMap)"

definition buildRelationshipMutationAPI ::
  "'cfg Collaborators \<Rightarrow> string \<Rightarrow> string \<Rightarrow> string \<Rightarrow> string \<Rightarrow> string
     \<Rightarrow> PropertyInputValue list \<Rightarrow> FieldDefinition list \<Rightarrow> string
     \<Rightarrow> GeneratedTypeMap \<Rightarrow> OperationTypeMap \<Rightarrow> 'cfg
     \<Rightarrow> error + (OperationTypeMap \<times> GeneratedTypeMap)" where
  "buildRelationshipMutationAPI X mutationAction mutationName relName fromT toT
       propertyInputVs propertyOutputFs outT generatedTypeMap operationTypeMap config =
     (let mutationOutputType = ''_'' @ mutationName @ ''Payload'' in
      (case buildRelationshipMutationField X mutationAction mutationName relName fromT toT
              propertyOutputFs mutationOutputType outT operationTypeMap config of
         Inl e \<Rightarrow> Inl e
       | Inr operationTypeMap1 \<Rightarrow>
           (let generatedTypeMap1 =
                  buildRelationshipMutationPropertyInputType mutationAction outT
                    propertyInputVs generatedTypeMap;
                generatedTypeMap2 =
                  buildRelationshipMutationOutputType X mutationAction mutationOutputType
                    propertyOutputFs relName fromT toT generatedTypeMap1
            in Inr (operationTypeMap1, generatedTypeMap2))))"

text \<open>
  The callback of \<open>Object.values(RelationshipMutation).forEach\<close>, on the pair of
  registries it reassigns. \<open>mutationType\<close> is the object stored under the Mutation key,
  which the push mutates in place, so the guard reads the current field list. The
  callback runs only after the orchestrator has found that entry.
\<close>

definition mutationAction_callback ::
  "'cfg Collaborators \<Rightarrow> RelationshipDescriptor \<Rightarrow> 'cfg \<Rightarrow> string
     \<Rightarrow> OperationTypeMap \<times> GeneratedTypeMap \<Rightarrow> error + (OperationTypeMap \<times> GeneratedTypeMap)" where
  "mutationAction_callback X d config mutationAction st =
     (case st of (operationTypeMap, generatedTypeMap) \<Rightarrow>
      (case buildRelationshipMutationName mutationAction (typeName d) (fieldName d) of
         Inl e \<Rightarrow> Inl e
       | Inr mutationName \<Rightarrow>
           (case operationTypeMap OperationType_MUTATION of
              None \<Rightarrow> Inl TypeError
            | Some mutationType \<Rightarrow>
                (if getFieldDefinition (ot_fields mutationType) mutationName = None
                 then buildRelationshipMutationAPI X mutationAction mutationName
                        (relationshipName d) (fromType d) (toType d)
                        (propertyInputValues d) (propertyOutputFields d) (outputType d)
                        generatedTypeMap operationTypeMap config
                 else Inr (operationTypeMap, generatedTypeMap)))))"

text \<open>\<open>Array.prototype.forEach\<close> with a callback that may throw: the first throw ends it.\<close>

fun forEach :: "('a \<Rightarrow> 's \<Rightarrow> error + 's) \<Rightarrow> 'a list \<Rightarrow> 's \<Rightarrow> error + 's" where
  "forEach f [] st = Inr st"
| "forEach f (x # xs) st = (case f x st of Inl e \<Rightarrow> Inl e | Inr st1 \<Rightarrow> forEach f xs st1)"

definition augmentRelationshipMutationAPI ::
  "'cfg Collaborators \<Rightarrow> RelationshipDescriptor \<Rightarrow> 'tdm \<Rightarrow> GeneratedTypeMap \<Rightarrow> OperationTypeMap
     \<Rightarrow> 'cfg \<Rightarrow> error + ('tdm \<times> GeneratedTypeMap \<times> OperationTypeMap)" where
  "augmentRelationshipMutationAPI X d typeDefinitionMap generatedTypeMap operationTypeMap config =
     (let mutationTypeName = OperationType_MUTATION;
          mutationTypeNameLower = toLowerCase mutationTypeName
      in (case operationTypeMap mutationTypeName of
            None \<Rightarrow> Inr (typeDefinitionMap, generatedTypeMap, operationTypeMap)
          | Some mutationType \<Rightarrow>
              (if shouldAugmentRelationshipField X config mutationTypeNameLower
                    (fromType d) (toType d)
               then (case forEach (mutationAction_callback X d config)
                            RelationshipMutation_values (operationTypeMap, generatedTypeMap) of
                       Inl e \<Rightarrow> Inl e
                     | Inr (operationTypeMap1, generatedTypeMap1) \<Rightarrow>
                         Inr (typeDefinitionMap, generatedTypeMap1, operationTypeMap1))
               else Inr (typeDefinitionMap, generatedTypeMap, operationTypeMap))))"

subsection \<open>A concrete schema\<close>

text \<open>
  The end-to-end scenario of the spec: the relationship \<open>KNOWS\<close> between \<open>Person\<close> and
  \<open>Person\<close>, used as the field \<open>knows\<close>, with the stored property \<open>since\<close>; beside it a
  computed property \<open>score\<close> that carries the cypher directive and takes an argument. The
  configuration is the authorization switch, the applicability predicate accepts the
  operation \<open>mutation\<close>, and the query-side builder returns the two endpoint fields.
\<close>

definition scenario_since_input :: PropertyInputValue where
  "scenario_since_input =
     \<lparr>piv_name = ''since'', piv_type = \<lparr>nt_name = ''Int'', nt_wrappers = {}\<rparr>,
      piv_directives = []\<rparr>"

definition scenario_score_input :: PropertyInputValue where
  "scenario_score_input =
     \<lparr>piv_name = ''score'', piv_type = \<lparr>nt_name = ''Float'', nt_wrappers = {}\<rparr>,
      piv_directives = [DeclaredDirective CYPHER [(''statement'', ''RETURN 1.0'')]]\<rparr>"

definition scenario_since_field :: FieldDefinition where
  "scenario_since_field =
     \<lparr>fd_name = NameNode ''since'', fd_type = NamedTypeNode (NameNode ''Int'') {},
      fd_arguments = [], fd_directives = []\<rparr>"

definition scenario_score_field :: FieldDefinition where
  "scenario_score_field =
     \<lparr>fd_name = NameNode ''score'', fd_type = NamedTypeNode (NameNode ''Float'') {},
      fd_arguments =
        [\<lparr>iv_name = NameNode ''factor'', iv_type = NamedTypeNode (NameNode ''Int'') {},
          iv_directives = []\<rparr>],
      fd_directives = [DeclaredDirective CYPHER [(''statement'', ''RETURN 1.0'')]]\<rparr>"

definition scenario_descriptor :: RelationshipDescriptor where
  "scenario_descriptor =
     \<lparr>typeName = ''Person'', fieldName = ''knows'', outputType = ''Knows'',
      fromType = ''Person'', toType = ''Person'', relationshipName = ''KNOWS'',
      propertyInputValues = [scenario_since_input],
      propertyOutputFields = [scenario_since_field]\<rparr>"

definition scenario_collaborators :: "bool Collaborators" where
  "scenario_collaborators =
     \<lparr>shouldAugmentRelationshipField = (\<lambda>config operation fromT toT. operation = ''mutation''),
      useAuthDirective = (\<lambda>config n. config \<and> n = HAS_SCOPE),
      buildNodeOutputFields =
        (\<lambda>fromT toT.
           [\<lparr>fd_name = NameNode ''from'', fd_type = NamedTypeNode (NameNode fromT) {},
             fd_arguments = [], fd_directives = []\<rparr>,
            \<lparr>fd_name = NameNode ''to'', fd_type = NamedTypeNode (NameNode toT) {},
             fd_arguments = [], fd_directives = []\<rparr>])\<rparr>"

definition scenario_mutationType :: ObjectTypeDefinition where
  "scenario_mutationType =
     \<lparr>ot_name = NameNode ''Mutation'', ot_fields = [], ot_directives = []\<rparr>"

definition scenario_operationTypeMap :: OperationTypeMap where
  "scenario_operationTypeMap = [OperationType_MUTATION \<mapsto> scenario_mutationType]"

text \<open>The registries the spec expects for the scenario.\<close>

definition scenario_generatedTypeMap1 :: GeneratedTypeMap where
  "scenario_generatedTypeMap1 =
     [''_KnowsInput'' \<mapsto>
        InputObjectTypeDef
          \<lparr>iot_name = NameNode ''_KnowsInput'',
           iot_fields =
             [\<lparr>iv_name = NameNode ''since'', iv_type = NamedTypeNode (NameNode ''Int'') {},
               iv_directives = []\<rparr>]\<rparr>,
      ''_AddPersonKnowsPayload'' \<mapsto>
        ObjectTypeDef
          \<lparr>ot_name = NameNode ''_AddPersonKnowsPayload'',
           ot_fields =
             [\<lparr>fd_name = NameNode ''from'', fd_type = NamedTypeNode (NameNode ''Person'') {},
               fd_arguments = [], fd_directives = []\<rparr>,
              \<lparr>fd_name = NameNode ''to'', fd_type = NamedTypeNode (NameNode ''Person'') {},
               fd_arguments = [], fd_directives = []\<rparr>,
              \<lparr>fd_name = NameNode ''since'', fd_type = NamedTypeNode (NameNode ''Int'') {},
               fd_arguments = [], fd_directives = []\<rparr>],
           ot_directives = [RelationDirective ''KNOWS'' ''Person'' ''Person'']\<rparr>,
      ''_RemovePersonKnowsPayload'' \<mapsto>
        ObjectTypeDef
          \<lparr>ot_name = NameNode ''_RemovePersonKnowsPayload'',
           ot_fields =
             [\<lparr>fd_name = NameNode ''from'', fd_type = NamedTypeNode (NameNode ''Person'') {},
               fd_arguments = [], fd_directives = []\<rparr>,
              \<lparr>fd_name = NameNode ''to'', fd_type = NamedTypeNode (NameNode ''Person'') {},
               fd_arguments = [], fd_directives = []\<rparr>],
           ot_directives = [RelationDirective ''KNOWS'' ''Person'' ''Person'']\<rparr>]"

definition scenario_operationTypeMap1 :: OperationTypeMap where
  "scenario_operationTypeMap1 =
     [OperationType_MUTATION \<mapsto>
        \<lparr>ot_name = NameNode ''Mutation'',
         ot_fields =
           [\<lparr>fd_name = NameNode ''AddPersonKnows'',
             fd_type = NamedTypeNode (NameNode ''_AddPersonKnowsPayload'') {},
             fd_arguments =
               [\<lparr>iv_name = NameNode ''from'',
                 iv_type = NamedTypeNode (NameNode ''_PersonInput'') {NON_NULL_NAMED_TYPE},
                 iv_directives = []\<rparr>,
                \<lparr>iv_name = NameNode ''to'',
                 iv_type = NamedTypeNode (NameNode ''_PersonInput'') {NON_NULL_NAMED_TYPE},
                 iv_directives = []\<rparr>,
                \<lparr>iv_name = NameNode ''data'',
                 iv_type = NamedTypeNode (NameNode ''_KnowsInput'') {NON_NULL_NAMED_TYPE},
                 iv_directives = []\<rparr>],
             fd_directives = [MutationMetaDirective ''KNOWS'' ''Person'' ''Person'']\<rparr>,
            \<lparr>fd_name = NameNode ''RemovePersonKnows'',
             fd_type = NamedTypeNode (NameNode ''_RemovePersonKnowsPayload'') {},
             fd_arguments =
               [\<lparr>iv_name = NameNode ''from'',
                 iv_type = NamedTypeNode (NameNode ''_PersonInput'') {NON_NULL_NAMED_TYPE},
                 iv_directives = []\<rparr>,
                \<lparr>iv_name = NameNode ''to'',
                 iv_type = NamedTypeNode (NameNode ''_PersonInput'') {NON_NULL_NAMED_TYPE},
                 iv_directives = []\<rparr>],
             fd_directives = [MutationMetaDirective ''KNOWS'' ''Person'' ''Person'']\<rparr>],
         ot_directives = []\<rparr>]"

section \<open>Basic facts\<close>

lemma CREATE_neq_DELETE: "RelationshipMutation_CREATE \<noteq> RelationshipMutation_DELETE"
  by (simp add: RelationshipMutation_CREATE_def RelationshipMutation_DELETE_def)

lemma toLowerCase_MUTATION: "toLowerCase OperationType_MUTATION = ''mutation''"
  by code_simp

lemma toUpperCase_char_k: "toUpperCase_char CHR ''k'' = ''K''"
  by code_simp

lemma upper_letters:
  "map toUpperCase_char ''abcdefghijklmnopqrstuvwxyz'' =
   map (\<lambda>c. [c]) ''ABCDEFGHIJKLMNOPQRSTUVWXYZ''"
  by code_simp

lemma upper_latin1: "toUpperCase_char (CHR 0xE9) = [CHR 0xC9]" "toUpperCase_char (CHR 0xDF) = ''SS''"
  by code_simp+

lemma lower_letter_iff:
  "c \<in> set ''abcdefghijklmnopqrstuvwxyz'' \<longleftrightarrow> 97 \<le> (of_char c :: nat) \<and> (of_char c :: nat) \<le> 122"
proof
  assume "c \<in> set ''abcdefghijklmnopqrstuvwxyz''"
  then show "97 \<le> (of_char c :: nat) \<and> (of_char c :: nat) \<le> 122"
    by auto
next
  assume r: "97 \<le> (of_char c :: nat) \<and> (of_char c :: nat) \<le> 122"
  define n where "n = (of_char c :: nat)"
  have c: "c = char_of n" by (simp add: n_def)
  from r have "n \<in> {97..<123}" by (simp add: n_def)
  then have "n \<in> set [97..<123]" by (simp only: set_upt)
  then have "char_of n \<in> char_of ` set [97..<123]" by (rule imageI)
  also have "char_of ` set [97..<123] = set (map char_of [97..<123::nat])" by simp
  also have "map char_of [97..<123::nat] = ''abcdefghijklmnopqrstuvwxyz''" by code_simp
  finally show "c \<in> set ''abcdefghijklmnopqrstuvwxyz''" by (simp only: c)
qed

lemma ascii_other_unchanged:
  assumes "(of_char c :: nat) < 128" and "c \<notin> set ''abcdefghijklmnopqrstuvwxyz''"
  shows "toUpperCase_char c = [c]"
  using assms unfolding lower_letter_iff
  by (auto simp add: toUpperCase_char_def Let_def)

lemma buildRelationshipMutationName_Nil:
  "buildRelationshipMutationName mutationAction tName [] = Inl TypeError"
  by (simp add: buildRelationshipMutationName_def)

lemma buildRelationshipMutationName_Cons:
  "buildRelationshipMutationName mutationAction tName (c # cs) =
     Inr (mutationAction @ tName @ toUpperCase_char c @ cs)"
  by (simp add: buildRelationshipMutationName_def toUpperCase_def)

section \<open>Facts about the lookups and the loop\<close>


lemma getDirective_None_iff:
  "getDirective directives n = None \<longleftrightarrow> n \<notin> directive_name ` set directives"
  by (auto simp: getDirective_def find_None_iff)

lemma isCypherField_iff:
  "isCypherField directives \<longleftrightarrow> CYPHER \<in> directive_name ` set directives"
  by (simp add: isCypherField_def getDirective_None_iff)

lemma Input_neq_Payload: "''_'' @ outT @ ''Input'' \<noteq> ''_'' @ n @ ''Payload''"
proof
  assume "''_'' @ outT @ ''Input'' = ''_'' @ n @ ''Payload''"
  then have "last (''_'' @ outT @ ''Input'') = last (''_'' @ n @ ''Payload'')"
    by (rule arg_cong)
  then show False by simp
qed


lemma getFieldDefinition_None_iff:
  "getFieldDefinition fs n = None \<longleftrightarrow>
     length (filter (\<lambda>field. name_value (fd_name field) = n) fs) = 0"
  by (auto simp: getFieldDefinition_def find_None_iff filter_empty_conv)

lemma buildRelationshipMutationField_run:
  assumes "operationTypeMap OperationType_MUTATION = Some mutationType"
    and "mutationAction = RelationshipMutation_CREATE \<or>
         mutationAction = RelationshipMutation_DELETE"
  shows "buildRelationshipMutationField X mutationAction mutationName relName fromT toT
           propertyOutputFs mutationOutputType outT operationTypeMap config =
         Inr (operationTypeMap(OperationType_MUTATION \<mapsto>
           mutationType\<lparr>ot_fields := ot_fields mutationType @
             [\<lparr>fd_name = NameNode mutationName,
               fd_type = NamedTypeNode (NameNode mutationOutputType) {},
               fd_arguments = buildRelationshipMutationArguments mutationAction fromT toT
                                propertyOutputFs outT,
               fd_directives = buildRelationshipMutationDirectives X mutationAction relName
                                 fromT toT propertyOutputFs config\<rparr>]\<rparr>))"
  using assms
  by (auto simp add: buildRelationshipMutationField_def buildField_def buildName_def buildNamedType_def)

lemma callback_skip:
  assumes "buildRelationshipMutationName a (typeName d) (fieldName d) = Inr n"
    and "otm OperationType_MUTATION = Some m"
    and "getFieldDefinition (ot_fields m) n \<noteq> None"
  shows "mutationAction_callback X d config a (otm, gtm) = Inr (otm, gtm)"
  using assms by (auto simp add: mutationAction_callback_def)

lemma callback_run:
  assumes "buildRelationshipMutationName a (typeName d) (fieldName d) = Inr n"
    and "otm OperationType_MUTATION = Some m"
    and "getFieldDefinition (ot_fields m) n = None"
    and "a = RelationshipMutation_CREATE \<or> a = RelationshipMutation_DELETE"
  shows "mutationAction_callback X d config a (otm, gtm) =
         Inr (otm(OperationType_MUTATION \<mapsto>
                m\<lparr>ot_fields := ot_fields m @
                  [\<lparr>fd_name = NameNode n,
                    fd_type = NamedTypeNode (NameNode (''_'' @ n @ ''Payload'')) {},
                    fd_arguments = buildRelationshipMutationArguments a (fromType d) (toType d)
                                     (propertyOutputFields d) (outputType d),
                    fd_directives = buildRelationshipMutationDirectives X a (relationshipName d)
                                      (fromType d) (toType d) (propertyOutputFields d) config\<rparr>]\<rparr>),
              buildRelationshipMutationOutputType X a (''_'' @ n @ ''Payload'')
                (propertyOutputFields d) (relationshipName d) (fromType d) (toType d)
                (buildRelationshipMutationPropertyInputType a (outputType d)
                   (propertyInputValues d) gtm))"
  using assms
  by (simp add: mutationAction_callback_def buildRelationshipMutationAPI_def Let_def
      buildRelationshipMutationField_run)

lemma augment_unfold:
  assumes "otm OperationType_MUTATION = Some m"
    and "shouldAugmentRelationshipField X config ''mutation'' (fromType d) (toType d)"
  shows "augmentRelationshipMutationAPI X d tdm gtm otm config =
         (case mutationAction_callback X d config RelationshipMutation_CREATE (otm, gtm) of
            Inl e \<Rightarrow> Inl e
          | Inr st1 \<Rightarrow>
              (case mutationAction_callback X d config RelationshipMutation_DELETE st1 of
                 Inl e \<Rightarrow> Inl e
               | Inr (otm2, gtm2) \<Rightarrow> Inr (tdm, gtm2, otm2)))"
  using assms
  by (simp add: augmentRelationshipMutationAPI_def Let_def toLowerCase_MUTATION
      RelationshipMutation_values_def split: sum.splits)

lemma augment_skip:
  assumes "otm OperationType_MUTATION = None \<or>
           \<not> shouldAugmentRelationshipField X config ''mutation'' (fromType d) (toType d)"
  shows "augmentRelationshipMutationAPI X d tdm gtm otm config = Inr (tdm, gtm, otm)"
  using assms
  by (auto simp add: augmentRelationshipMutationAPI_def Let_def toLowerCase_MUTATION
      split: option.splits)

text \<open>One step of the loop, by the number of fields that carry a name.\<close>

lemma callback_step:
  assumes n: "buildRelationshipMutationName a (typeName d) (fieldName d) = Inr n"
    and m: "otm OperationType_MUTATION = Some m"
    and a: "a = RelationshipMutation_CREATE \<or> a = RelationshipMutation_DELETE"
  shows "\<exists>m1 gtm1.
           mutationAction_callback X d config a (otm, gtm) =
             Inr (otm(OperationType_MUTATION \<mapsto> m1), gtm1)
           \<and> (\<forall>k. length (filter (\<lambda>field. name_value (fd_name field) = k) (ot_fields m1)) =
                    length (filter (\<lambda>field. name_value (fd_name field) = k) (ot_fields m)) +
                    (if k = n \<and> getFieldDefinition (ot_fields m) n = None then 1 else 0))"
proof (cases "getFieldDefinition (ot_fields m) n = None")
  case True
  note run = callback_run [where otm = otm and gtm = gtm and X = X and config = config,
      OF n m True a]
  show ?thesis
    unfolding run
    apply (intro exI conjI)
     apply (rule refl)
    apply (simp add: True)
    done
next
  case False
  have "otm = otm(OperationType_MUTATION \<mapsto> m)"
    using m by (simp add: fun_upd_idem)
  then have "mutationAction_callback X d config a (otm, gtm) =
      Inr (otm(OperationType_MUTATION \<mapsto> m), gtm)"
    using callback_skip [where otm = otm and gtm = gtm and X = X and config = config,
        OF n m False] by simp
  with False show ?thesis by auto
qed

lemma mutation_names_distinct:
  assumes "buildRelationshipMutationName RelationshipMutation_CREATE t f = Inr x"
    and "buildRelationshipMutationName RelationshipMutation_DELETE t f = Inr y"
  shows "x \<noteq> y"
  using assms
  by (auto simp add: buildRelationshipMutationName_def RelationshipMutation_CREATE_def
      RelationshipMutation_DELETE_def split: list.splits)

lemma augment_error:
  assumes "otm OperationType_MUTATION = Some m"
    and "shouldAugmentRelationshipField X config ''mutation'' (fromType d) (toType d)"
    and "fieldName d = []"
  shows "augmentRelationshipMutationAPI X d tdm gtm otm config = Inl TypeError"
  using assms
  by (simp add: augment_unfold mutationAction_callback_def buildRelationshipMutationName_Nil)

lemma augment_twice_core:
  assumes m: "otm OperationType_MUTATION = Some m"
    and s: "shouldAugmentRelationshipField X config ''mutation'' (fromType d) (toType d)"
    and nA: "buildRelationshipMutationName RelationshipMutation_CREATE (typeName d) (fieldName d)
               = Inr addName"
    and nD: "buildRelationshipMutationName RelationshipMutation_DELETE (typeName d) (fieldName d)
               = Inr removeName"
  shows "\<exists>gtm2 m2.
           augmentRelationshipMutationAPI X d tdm gtm otm config =
             Inr (tdm, gtm2, otm(OperationType_MUTATION \<mapsto> m2))
           \<and> augmentRelationshipMutationAPI X d tdm gtm2 (otm(OperationType_MUTATION \<mapsto> m2)) config =
             Inr (tdm, gtm2, otm(OperationType_MUTATION \<mapsto> m2))
           \<and> (\<forall>k. length (filter (\<lambda>field. name_value (fd_name field) = k) (ot_fields m2)) =
                    length (filter (\<lambda>field. name_value (fd_name field) = k) (ot_fields m)) +
                    (if k = addName \<and> getFieldDefinition (ot_fields m) addName = None
                     then 1 else 0) +
                    (if k = removeName \<and> getFieldDefinition (ot_fields m) removeName = None
                     then 1 else 0))"
proof -
  let ?cnt = "\<lambda>k fs. length (filter (\<lambda>field. name_value (fd_name field) = k) fs)"
  have ne: "addName \<noteq> removeName"
    using nA nD by (rule mutation_names_distinct)
  obtain m1 gtm1 where
    step1: "mutationAction_callback X d config RelationshipMutation_CREATE (otm, gtm) =
              Inr (otm(OperationType_MUTATION \<mapsto> m1), gtm1)"
    and cnt1: "\<And>k. ?cnt k (ot_fields m1) = ?cnt k (ot_fields m) +
                 (if k = addName \<and> getFieldDefinition (ot_fields m) addName = None
                  then 1 else 0)"
    using callback_step [where otm = otm and gtm = gtm and X = X and config = config,
        OF nA m] by blast
  have m1: "(otm(OperationType_MUTATION \<mapsto> m1)) OperationType_MUTATION = Some m1"
    by simp
  obtain m2 gtm2 where
    step2: "mutationAction_callback X d config RelationshipMutation_DELETE
              (otm(OperationType_MUTATION \<mapsto> m1), gtm1) =
              Inr (otm(OperationType_MUTATION \<mapsto> m2), gtm2)"
    and cnt2: "\<And>k. ?cnt k (ot_fields m2) = ?cnt k (ot_fields m1) +
                 (if k = removeName \<and> getFieldDefinition (ot_fields m1) removeName = None
                  then 1 else 0)"
    using callback_step [where otm = "otm(OperationType_MUTATION \<mapsto> m1)" and gtm = gtm1
        and X = X and config = config, OF nD m1] by auto
  have same: "getFieldDefinition (ot_fields m1) removeName = None \<longleftrightarrow>
              getFieldDefinition (ot_fields m) removeName = None"
    using ne by (simp only: getFieldDefinition_None_iff cnt1) simp
  have first: "augmentRelationshipMutationAPI X d tdm gtm otm config =
                 Inr (tdm, gtm2, otm(OperationType_MUTATION \<mapsto> m2))"
    by (simp add: augment_unfold [where otm = otm, OF m s] step1 step2)
  have cnt: "?cnt k (ot_fields m2) = ?cnt k (ot_fields m) +
               (if k = addName \<and> getFieldDefinition (ot_fields m) addName = None then 1 else 0) +
               (if k = removeName \<and> getFieldDefinition (ot_fields m) removeName = None
                then 1 else 0)" for k
    by (simp only: cnt2 cnt1 same)
  have m2: "(otm(OperationType_MUTATION \<mapsto> m2)) OperationType_MUTATION = Some m2"
    by simp
  have hasA: "getFieldDefinition (ot_fields m2) addName \<noteq> None"
    unfolding getFieldDefinition_None_iff cnt [of addName]
    by (simp add: getFieldDefinition_None_iff)
  have hasD: "getFieldDefinition (ot_fields m2) removeName \<noteq> None"
    unfolding getFieldDefinition_None_iff cnt [of removeName]
    by (simp add: getFieldDefinition_None_iff)
  have second: "augmentRelationshipMutationAPI X d tdm gtm2 (otm(OperationType_MUTATION \<mapsto> m2))
                  config = Inr (tdm, gtm2, otm(OperationType_MUTATION \<mapsto> m2))"
    by (simp add: augment_unfold [where otm = "otm(OperationType_MUTATION \<mapsto> m2)", OF m2 s]
        callback_skip [where otm = "otm(OperationType_MUTATION \<mapsto> m2)", OF nA m2 hasA]
        callback_skip [where otm = "otm(OperationType_MUTATION \<mapsto> m2)", OF nD m2 hasD])
  from first second cnt show ?thesis by blast
qed

text \<open>The scenario of the spec, evaluated.\<close>

lemmas scenario_defs =
  scenario_descriptor_def scenario_collaborators_def scenario_operationTypeMap_def
  scenario_mutationType_def scenario_since_input_def scenario_since_field_def
  scenario_score_input_def scenario_score_field_def

lemmas model_defs =
  augmentRelationshipMutationAPI_def mutationAction_callback_def
  buildRelationshipMutationAPI_def buildRelationshipMutationField_def
  buildRelationshipMutationPropertyInputType_def buildRelationshipMutationOutputType_def
  buildRelationshipMutationArguments_def buildRelationshipMutationDirectives_def
  buildNodeSelectionArguments_def buildRelationshipPropertyInputArgument_def
  buildRelationshipMutationName_def
  buildField_def buildName_def buildNamedType_def buildInputValue_def buildObjectType_def
  buildInputObjectType_def buildMutationMetaDirective_def buildRelationDirective_def
  buildAuthScopeDirective_def getFieldDefinition_def getDirective_def isCypherField_def
  RelationshipMutation_values_def RelationshipMutation_CREATE_def RelationshipMutation_DELETE_def
  RelationshipDirectionField_FROM_def RelationshipDirectionField_TO_def
  toUpperCase_def toUpperCase_char_k toLowerCase_MUTATION

lemma scenario_run:
  "augmentRelationshipMutationAPI scenario_collaborators scenario_descriptor () Map.empty
     scenario_operationTypeMap False =
   Inr ((), scenario_generatedTypeMap1, scenario_operationTypeMap1)"
  by (simp add: model_defs scenario_defs Let_def OperationType_MUTATION_def
      scenario_generatedTypeMap1_def scenario_operationTypeMap1_def
      toLowerCase_MUTATION [unfolded OperationType_MUTATION_def])

lemma augment_Inr_cases:
  assumes res: "augmentRelationshipMutationAPI X d tdm gtm otm config = Inr (tdm1, gtm1, otm1)"
  shows "tdm1 = tdm \<and>
         (gtm1 = gtm \<and> otm1 = otm \<or>
          (\<exists>m m2. otm OperationType_MUTATION = Some m
             \<and> otm1 = otm(OperationType_MUTATION \<mapsto> m2)
             \<and> augmentRelationshipMutationAPI X d tdm gtm1 otm1 config =
                 Inr (tdm, gtm1, otm1)))
         \<and> augmentRelationshipMutationAPI X d tdm1 gtm1 otm1 config = Inr (tdm1, gtm1, otm1)"
proof (cases "otm OperationType_MUTATION = None \<or>
    \<not> shouldAugmentRelationshipField X config ''mutation'' (fromType d) (toType d)")
  case True
  note skip = augment_skip [where otm = otm and tdm = tdm and gtm = gtm, OF True]
  from skip res
  have eq: "tdm1 = tdm" "gtm1 = gtm" "otm1 = otm" by simp_all
  with skip show ?thesis by simp
next
  case False
  then obtain m where m: "otm OperationType_MUTATION = Some m"
    and s: "shouldAugmentRelationshipField X config ''mutation'' (fromType d) (toType d)"
    by auto
  show ?thesis
  proof (cases "fieldName d")
    case Nil
    from augment_error [where otm = otm and tdm = tdm and gtm = gtm, OF m s Nil] res
    show ?thesis by simp
  next
    case (Cons c cs)
    have nA: "buildRelationshipMutationName RelationshipMutation_CREATE (typeName d)
                (fieldName d) =
              Inr (RelationshipMutation_CREATE @ typeName d @ toUpperCase_char c @ cs)"
      by (simp add: Cons buildRelationshipMutationName_Cons)
    have nD: "buildRelationshipMutationName RelationshipMutation_DELETE (typeName d)
                (fieldName d) =
              Inr (RelationshipMutation_DELETE @ typeName d @ toUpperCase_char c @ cs)"
      by (simp add: Cons buildRelationshipMutationName_Cons)
    from augment_twice_core [where otm = otm and tdm = tdm and gtm = gtm, OF m s nA nD]
    obtain gtm2 m2 where
      first: "augmentRelationshipMutationAPI X d tdm gtm otm config =
                Inr (tdm, gtm2, otm(OperationType_MUTATION \<mapsto> m2))"
      and second: "augmentRelationshipMutationAPI X d tdm gtm2
                     (otm(OperationType_MUTATION \<mapsto> m2)) config =
                   Inr (tdm, gtm2, otm(OperationType_MUTATION \<mapsto> m2))"
      by blast
    from first res have eq: "tdm1 = tdm" "gtm1 = gtm2" "otm1 = otm(OperationType_MUTATION \<mapsto> m2)"
      by simp_all
    with second m show ?thesis by auto
  qed
qed

text \<open>The generated-type map after one step of the loop.\<close>

lemma Payload_neq_Payload: "x \<noteq> y \<Longrightarrow> ''_'' @ x @ ''Payload'' \<noteq> ''_'' @ y @ ''Payload''"
  by simp

lemma buildRelationshipMutationOutputType_at:
  assumes "a = RelationshipMutation_CREATE \<or> a = RelationshipMutation_DELETE"
  shows "\<exists>p. buildRelationshipMutationOutputType X a mot pofs relName fromT toT gtm mot =
               Some (ObjectTypeDef p)
             \<and> ot_directives p = [RelationDirective relName fromT toT]"
  using assms
  by (auto simp add: buildRelationshipMutationOutputType_def Let_def buildObjectType_def
      buildRelationDirective_def)

lemma buildRelationshipMutationOutputType_other:
  "k \<noteq> mot \<Longrightarrow>
     buildRelationshipMutationOutputType X a mot pofs relName fromT toT gtm k = gtm k"
  by (simp add: buildRelationshipMutationOutputType_def Let_def)

lemma buildRelationshipMutationPropertyInputType_other:
  "k \<noteq> ''_'' @ outT @ ''Input'' \<or> a \<noteq> RelationshipMutation_CREATE \<or> pivs = [] \<Longrightarrow>
     buildRelationshipMutationPropertyInputType a outT pivs gtm k = gtm k"
  by (auto simp add: buildRelationshipMutationPropertyInputType_def Let_def)

lemma callback_gtm_payload:
  assumes n: "buildRelationshipMutationName a (typeName d) (fieldName d) = Inr n"
    and m: "otm OperationType_MUTATION = Some m"
    and a: "a = RelationshipMutation_CREATE \<or> a = RelationshipMutation_DELETE"
    and absent: "getFieldDefinition (ot_fields m) n = None"
    and res: "mutationAction_callback X d config a (otm, gtm) = Inr (otm1, gtm1)"
  shows "\<exists>p. gtm1 (''_'' @ n @ ''Payload'') = Some (ObjectTypeDef p)
             \<and> ot_directives p =
                 [RelationDirective (relationshipName d) (fromType d) (toType d)]"
proof -
  from res callback_run [where otm = otm and gtm = gtm and X = X and config = config,
      OF n m absent a]
  have "gtm1 =
      buildRelationshipMutationOutputType X a (''_'' @ n @ ''Payload'')
        (propertyOutputFields d) (relationshipName d) (fromType d) (toType d)
        (buildRelationshipMutationPropertyInputType a (outputType d)
           (propertyInputValues d) gtm)"
    by simp
  with buildRelationshipMutationOutputType_at [OF a] show ?thesis by simp
qed

lemma callback_gtm_frame:
  assumes n: "buildRelationshipMutationName a (typeName d) (fieldName d) = Inr n"
    and m: "otm OperationType_MUTATION = Some m"
    and a: "a = RelationshipMutation_CREATE \<or> a = RelationshipMutation_DELETE"
    and k: "k \<noteq> ''_'' @ n @ ''Payload''"
    and i: "k \<noteq> ''_'' @ outputType d @ ''Input'' \<or> a \<noteq> RelationshipMutation_CREATE \<or>
            propertyInputValues d = []"
    and res: "mutationAction_callback X d config a (otm, gtm) = Inr (otm1, gtm1)"
  shows "gtm1 k = gtm k"
proof (cases "getFieldDefinition (ot_fields m) n = None")
  case True
  from res callback_run [where otm = otm and gtm = gtm and X = X and config = config,
      OF n m True a]
  have "gtm1 =
      buildRelationshipMutationOutputType X a (''_'' @ n @ ''Payload'')
        (propertyOutputFields d) (relationshipName d) (fromType d) (toType d)
        (buildRelationshipMutationPropertyInputType a (outputType d)
           (propertyInputValues d) gtm)"
    by simp
  then show ?thesis
    by (simp only: buildRelationshipMutationOutputType_other [OF k]
        buildRelationshipMutationPropertyInputType_other [OF i])
next
  case False
  from res callback_skip [where otm = otm and gtm = gtm and X = X and config = config,
      OF n m False]
  show ?thesis by simp
qed

lemma getFieldDefinition_append:
  "getFieldDefinition (fs @ gs) n =
     (case getFieldDefinition fs n of None \<Rightarrow> getFieldDefinition gs n | Some f \<Rightarrow> Some f)"
  by (induction fs) (simp_all add: getFieldDefinition_def)

lemma callback_fields:
  assumes n: "buildRelationshipMutationName a (typeName d) (fieldName d) = Inr n"
    and m: "otm OperationType_MUTATION = Some m"
    and a: "a = RelationshipMutation_CREATE \<or> a = RelationshipMutation_DELETE"
  shows "\<exists>m1 gtm1 ext.
           mutationAction_callback X d config a (otm, gtm) =
             Inr (otm(OperationType_MUTATION \<mapsto> m1), gtm1)
           \<and> ot_fields m1 = ot_fields m @ ext"
proof (cases "getFieldDefinition (ot_fields m) n = None")
  case True
  note run = callback_run [where otm = otm and gtm = gtm and X = X and config = config,
      OF n m True a]
  show ?thesis
    unfolding run
    apply (intro exI conjI)
     apply (rule refl)
    apply simp
    done
next
  case False
  have "otm = otm(OperationType_MUTATION \<mapsto> m)"
    using m by (simp add: fun_upd_idem)
  then have "mutationAction_callback X d config a (otm, gtm) =
      Inr (otm(OperationType_MUTATION \<mapsto> m), gtm)"
    using callback_skip [where otm = otm and gtm = gtm and X = X and config = config,
        OF n m False] by simp
  then show ?thesis by (intro exI [of _ m] exI [of _ gtm] exI [of _ "[]"]) simp
qed

text \<open>The field a run of the pass registers for an action whose name is new.\<close>

lemma augment_registers_field:
  assumes m: "otm OperationType_MUTATION = Some m"
    and s: "shouldAugmentRelationshipField X config ''mutation'' (fromType d) (toType d)"
    and a: "a = RelationshipMutation_CREATE \<or> a = RelationshipMutation_DELETE"
    and n: "buildRelationshipMutationName a (typeName d) (fieldName d) = Inr n"
    and absent: "getFieldDefinition (ot_fields m) n = None"
  shows "\<exists>gtm2 otm2 m2.
           augmentRelationshipMutationAPI X d tdm gtm otm config = Inr (tdm, gtm2, otm2)
           \<and> otm2 OperationType_MUTATION = Some m2
           \<and> getFieldDefinition (ot_fields m2) n =
               Some \<lparr>fd_name = NameNode n,
                     fd_type = NamedTypeNode (NameNode (''_'' @ n @ ''Payload'')) {},
                     fd_arguments =
                       buildRelationshipMutationArguments a (fromType d) (toType d)
                         (propertyOutputFields d) (outputType d),
                     fd_directives =
                       buildRelationshipMutationDirectives X a (relationshipName d)
                         (fromType d) (toType d) (propertyOutputFields d) config\<rparr>"
proof -
  let ?field = "\<lambda>a n. \<lparr>fd_name = NameNode n,
                     fd_type = NamedTypeNode (NameNode (''_'' @ n @ ''Payload'')) {},
                     fd_arguments =
                       buildRelationshipMutationArguments a (fromType d) (toType d)
                         (propertyOutputFields d) (outputType d),
                     fd_directives =
                       buildRelationshipMutationDirectives X a (relationshipName d)
                         (fromType d) (toType d) (propertyOutputFields d) config\<rparr>"
  from n obtain c cs where f: "fieldName d = c # cs"
    by (cases "fieldName d") (simp_all add: buildRelationshipMutationName_Nil)
  define addName where
    "addName = RelationshipMutation_CREATE @ typeName d @ toUpperCase_char c @ cs"
  define removeName where
    "removeName = RelationshipMutation_DELETE @ typeName d @ toUpperCase_char c @ cs"
  have nA: "buildRelationshipMutationName RelationshipMutation_CREATE (typeName d) (fieldName d)
              = Inr addName"
    by (simp add: f addName_def buildRelationshipMutationName_Cons)
  have nD: "buildRelationshipMutationName RelationshipMutation_DELETE (typeName d) (fieldName d)
              = Inr removeName"
    by (simp add: f removeName_def buildRelationshipMutationName_Cons)
  have ne: "addName \<noteq> removeName"
    using nA nD by (rule mutation_names_distinct)
  have cd: "RelationshipMutation_CREATE = RelationshipMutation_CREATE \<or>
            RelationshipMutation_CREATE = RelationshipMutation_DELETE"
    and dd: "RelationshipMutation_DELETE = RelationshipMutation_CREATE \<or>
             RelationshipMutation_DELETE = RelationshipMutation_DELETE"
    by simp_all
  have found: "getFieldDefinition (fs @ [?field b k] @ ext) k = Some (?field b k)"
    if "getFieldDefinition fs k = None" for fs ext b k
    using that by (simp add: getFieldDefinition_append) (simp add: getFieldDefinition_def)
  from a show ?thesis
  proof
    assume c: "a = RelationshipMutation_CREATE"
    with n nA have nn: "n = addName" by simp
    define m1 where "m1 = m\<lparr>ot_fields := ot_fields m @ [?field RelationshipMutation_CREATE addName]\<rparr>"
    define gtm1 where
      "gtm1 = buildRelationshipMutationOutputType X RelationshipMutation_CREATE
                (''_'' @ addName @ ''Payload'') (propertyOutputFields d) (relationshipName d)
                (fromType d) (toType d)
                (buildRelationshipMutationPropertyInputType RelationshipMutation_CREATE
                   (outputType d) (propertyInputValues d) gtm)"
    have step1: "mutationAction_callback X d config RelationshipMutation_CREATE (otm, gtm) =
                   Inr (otm(OperationType_MUTATION \<mapsto> m1), gtm1)"
      unfolding m1_def gtm1_def
      by (rule callback_run [where otm = otm, OF nA m absent [unfolded nn] cd])
    have m1: "(otm(OperationType_MUTATION \<mapsto> m1)) OperationType_MUTATION = Some m1"
      by simp
    obtain m2 gtm2 ext where
      step2: "mutationAction_callback X d config RelationshipMutation_DELETE
                (otm(OperationType_MUTATION \<mapsto> m1), gtm1) =
                Inr (otm(OperationType_MUTATION \<mapsto> m2), gtm2)"
      and ext: "ot_fields m2 = ot_fields m1 @ ext"
      using callback_fields [where otm = "otm(OperationType_MUTATION \<mapsto> m1)" and gtm = gtm1
          and X = X and config = config, OF nD m1 dd] by auto
    have res: "augmentRelationshipMutationAPI X d tdm gtm otm config =
                 Inr (tdm, gtm2, otm(OperationType_MUTATION \<mapsto> m2))"
      by (simp add: augment_unfold [where otm = otm, OF m s] step1 step2)
    have "getFieldDefinition (ot_fields m2) addName =
            Some (?field RelationshipMutation_CREATE addName)"
      using found [OF absent [unfolded nn], of RelationshipMutation_CREATE ext]
      by (simp add: ext m1_def)
    with res show ?thesis
      unfolding c nn
      by (intro exI [of _ gtm2] exI [of _ "otm(OperationType_MUTATION \<mapsto> m2)"]
          exI [of _ m2]) simp
  next
    assume c: "a = RelationshipMutation_DELETE"
    with n nD have nn: "n = removeName" by simp
    obtain m1 gtm1 where
      step1: "mutationAction_callback X d config RelationshipMutation_CREATE (otm, gtm) =
                Inr (otm(OperationType_MUTATION \<mapsto> m1), gtm1)"
      and cnt1: "\<And>k. length (filter (\<lambda>field. name_value (fd_name field) = k) (ot_fields m1)) =
                   length (filter (\<lambda>field. name_value (fd_name field) = k) (ot_fields m)) +
                   (if k = addName \<and> getFieldDefinition (ot_fields m) addName = None
                    then 1 else 0)"
      using callback_step [where otm = otm and gtm = gtm and X = X and config = config,
          OF nA m cd] by blast
    have m1: "(otm(OperationType_MUTATION \<mapsto> m1)) OperationType_MUTATION = Some m1"
      by simp
    have absent1: "getFieldDefinition (ot_fields m1) removeName = None"
      using ne absent [unfolded nn]
      by (simp only: getFieldDefinition_None_iff cnt1) simp
    define m2 where
      "m2 = m1\<lparr>ot_fields := ot_fields m1 @ [?field RelationshipMutation_DELETE removeName]\<rparr>"
    define gtm2 where
      "gtm2 = buildRelationshipMutationOutputType X RelationshipMutation_DELETE
                (''_'' @ removeName @ ''Payload'') (propertyOutputFields d) (relationshipName d)
                (fromType d) (toType d)
                (buildRelationshipMutationPropertyInputType RelationshipMutation_DELETE
                   (outputType d) (propertyInputValues d) gtm1)"
    have step2: "mutationAction_callback X d config RelationshipMutation_DELETE
                   (otm(OperationType_MUTATION \<mapsto> m1), gtm1) =
                 Inr (otm(OperationType_MUTATION \<mapsto> m2), gtm2)"
      using callback_run [where otm = "otm(OperationType_MUTATION \<mapsto> m1)" and gtm = gtm1
          and X = X and config = config, OF nD m1 absent1 dd]
      by (simp add: m2_def gtm2_def)
    have res: "augmentRelationshipMutationAPI X d tdm gtm otm config =
                 Inr (tdm, gtm2, otm(OperationType_MUTATION \<mapsto> m2))"
      by (simp add: augment_unfold [where otm = otm, OF m s] step1 step2)
    have "getFieldDefinition (ot_fields m2) removeName =
            Some (?field RelationshipMutation_DELETE removeName)"
      using found [OF absent1, of RelationshipMutation_DELETE "[]"]
      by (simp add: m2_def)
    with res show ?thesis
      unfolding c nn
      by (intro exI [of _ gtm2] exI [of _ "otm(OperationType_MUTATION \<mapsto> m2)"]
          exI [of _ m2]) simp
  qed
qed

lemma scenario_names:
  "buildRelationshipMutationName RelationshipMutation_CREATE (typeName scenario_descriptor)
     (fieldName scenario_descriptor) = Inr ''AddPersonKnows''"
  "buildRelationshipMutationName RelationshipMutation_DELETE (typeName scenario_descriptor)
     (fieldName scenario_descriptor) = Inr ''RemovePersonKnows''"
  by (simp_all add: scenario_descriptor_def buildRelationshipMutationName_Cons
      toUpperCase_char_k RelationshipMutation_CREATE_def RelationshipMutation_DELETE_def)

section \<open>The naming resolver\<close>

text \<open>
  Claim C2. The mutation field name is a function of the action label, the type name and
  the field name alone: the label, then the type name, then the field name with its first
  code unit put in upper case. Each of the letters \<open>a..z\<close> in first place is replaced by
  its capital, any other ASCII code unit in first place is kept, and (beyond the names
  GraphQL allows) e with acute accent becomes its capital and the sharp s becomes \<open>SS\<close>.
  For the type \<open>Person\<close> and the field \<open>knows\<close> the CREATE action gives
  \<open>AddPersonKnows\<close> and the DELETE action gives \<open>RemovePersonKnows\<close>.
\<close>

theorem mutation_name_is_label_type_capitalized_field:
  "buildRelationshipMutationName mutationAction tName (c # cs) =
     Inr (mutationAction @ tName @ toUpperCase [c] @ cs)
   \<and> map (\<lambda>l. buildRelationshipMutationName mutationAction tName (l # cs))
         ''abcdefghijklmnopqrstuvwxyz'' =
       map (\<lambda>u. Inr (mutationAction @ tName @ u # cs)) ''ABCDEFGHIJKLMNOPQRSTUVWXYZ''
   \<and> ((of_char c :: nat) < 128 \<and> c \<notin> set ''abcdefghijklmnopqrstuvwxyz'' \<longrightarrow>
        buildRelationshipMutationName mutationAction tName (c # cs) =
          Inr (mutationAction @ tName @ c # cs))
   \<and> buildRelationshipMutationName mutationAction tName (CHR 0xE9 # cs) =
       Inr (mutationAction @ tName @ CHR 0xC9 # cs)
   \<and> buildRelationshipMutationName mutationAction tName (CHR 0xDF # cs) =
       Inr (mutationAction @ tName @ ''SS'' @ cs)
   \<and> buildRelationshipMutationName RelationshipMutation_CREATE ''Person'' ''knows'' =
       Inr ''AddPersonKnows''
   \<and> buildRelationshipMutationName RelationshipMutation_DELETE ''Person'' ''knows'' =
       Inr ''RemovePersonKnows''"
proof -
  have general: "buildRelationshipMutationName mutationAction tName (c # cs) =
     Inr (mutationAction @ tName @ toUpperCase [c] @ cs)"
    by (simp add: buildRelationshipMutationName_def)
  have letters: "map (\<lambda>l. buildRelationshipMutationName mutationAction tName (l # cs))
         ''abcdefghijklmnopqrstuvwxyz'' =
       map (\<lambda>u. Inr (mutationAction @ tName @ u # cs)) ''ABCDEFGHIJKLMNOPQRSTUVWXYZ''"
    using upper_letters by (simp add: buildRelationshipMutationName_Cons)
  have other: "buildRelationshipMutationName mutationAction tName (c # cs) =
          Inr (mutationAction @ tName @ c # cs)"
    if "(of_char c :: nat) < 128 \<and> c \<notin> set ''abcdefghijklmnopqrstuvwxyz''"
    using that by (simp add: buildRelationshipMutationName_Cons ascii_other_unchanged)
  have latin: "buildRelationshipMutationName mutationAction tName (CHR 0xE9 # cs) =
       Inr (mutationAction @ tName @ CHR 0xC9 # cs)"
    "buildRelationshipMutationName mutationAction tName (CHR 0xDF # cs) =
       Inr (mutationAction @ tName @ ''SS'' @ cs)"
    by (simp_all add: buildRelationshipMutationName_Cons upper_latin1)
  have knows: "buildRelationshipMutationName RelationshipMutation_CREATE ''Person'' ''knows'' =
       Inr ''AddPersonKnows''"
    "buildRelationshipMutationName RelationshipMutation_DELETE ''Person'' ''knows'' =
       Inr ''RemovePersonKnows''"
    by (simp_all add: buildRelationshipMutationName_Cons toUpperCase_char_k
        RelationshipMutation_CREATE_def RelationshipMutation_DELETE_def)
  from general letters other latin knows show ?thesis by blast
qed

theorem mutation_name_scenario:
  "buildRelationshipMutationName RelationshipMutation_CREATE ''Person'' ''_knows'' =
     Inr ''AddPerson_knows''
   \<and> buildRelationshipMutationName RelationshipMutation_DELETE ''Person'' ''Knows'' =
     Inr ''RemovePersonKnows''"
proof -
  have u: "(of_char CHR ''_'' :: nat) < 128 \<and> CHR ''_'' \<notin> set ''abcdefghijklmnopqrstuvwxyz''"
    and k: "(of_char CHR ''K'' :: nat) < 128 \<and> CHR ''K'' \<notin> set ''abcdefghijklmnopqrstuvwxyz''"
    by simp_all
  from mutation_name_is_label_type_capitalized_field [where mutationAction = RelationshipMutation_CREATE and tName = "''Person''"
      and c = "CHR ''_''" and cs = "''knows''",
      THEN conjunct2, THEN conjunct2, THEN conjunct1, THEN mp, OF u]
    mutation_name_is_label_type_capitalized_field [where mutationAction = RelationshipMutation_DELETE and tName = "''Person''"
      and c = "CHR ''K''" and cs = "''nows''",
      THEN conjunct2, THEN conjunct2, THEN conjunct1, THEN mp, OF k]
  show ?thesis
    by (simp add: RelationshipMutation_CREATE_def RelationshipMutation_DELETE_def)
qed

section \<open>The argument builder\<close>

text \<open>
  Claim C3. The Remove field that the pass registers has exactly the two arguments
  \<open>from\<close> and \<open>to\<close>, whatever the property output fields are. The Add field that the
  pass registers has the same two arguments when there is no property output field, and a
  third argument \<open>data\<close> after them when there is one. \<open>from\<close> is typed as the non-null
  \<open>_<fromType>Input\<close>, \<open>to\<close> as the non-null \<open>_<toType>Input\<close> and \<open>data\<close> as the
  non-null \<open>_<outputType>Input\<close>. The first three equations give the lists the argument
  builder returns; the last two read the arguments off the field found under the computed
  name in the Mutation field list the orchestrator returns.
\<close>

theorem generated_field_arguments_from_to_then_data:
  "buildRelationshipMutationArguments RelationshipMutation_DELETE fromT toT pofs outT =
     [\<lparr>iv_name = NameNode ''from'',
       iv_type = NamedTypeNode (NameNode (''_'' @ fromT @ ''Input'')) {NON_NULL_NAMED_TYPE},
       iv_directives = []\<rparr>,
      \<lparr>iv_name = NameNode ''to'',
       iv_type = NamedTypeNode (NameNode (''_'' @ toT @ ''Input'')) {NON_NULL_NAMED_TYPE},
       iv_directives = []\<rparr>]
   \<and> buildRelationshipMutationArguments RelationshipMutation_CREATE fromT toT [] outT =
     [\<lparr>iv_name = NameNode ''from'',
       iv_type = NamedTypeNode (NameNode (''_'' @ fromT @ ''Input'')) {NON_NULL_NAMED_TYPE},
       iv_directives = []\<rparr>,
      \<lparr>iv_name = NameNode ''to'',
       iv_type = NamedTypeNode (NameNode (''_'' @ toT @ ''Input'')) {NON_NULL_NAMED_TYPE},
       iv_directives = []\<rparr>]
   \<and> buildRelationshipMutationArguments RelationshipMutation_CREATE fromT toT (p # ps) outT =
     [\<lparr>iv_name = NameNode ''from'',
       iv_type = NamedTypeNode (NameNode (''_'' @ fromT @ ''Input'')) {NON_NULL_NAMED_TYPE},
       iv_directives = []\<rparr>,
      \<lparr>iv_name = NameNode ''to'',
       iv_type = NamedTypeNode (NameNode (''_'' @ toT @ ''Input'')) {NON_NULL_NAMED_TYPE},
       iv_directives = []\<rparr>,
      \<lparr>iv_name = NameNode ''data'',
       iv_type = NamedTypeNode (NameNode (''_'' @ outT @ ''Input'')) {NON_NULL_NAMED_TYPE},
       iv_directives = []\<rparr>]
   \<and> (otm OperationType_MUTATION = Some m
        \<and> shouldAugmentRelationshipField X config ''mutation'' (fromType d) (toType d)
        \<and> buildRelationshipMutationName RelationshipMutation_CREATE (typeName d) (fieldName d) =
            Inr addName
        \<and> getFieldDefinition (ot_fields m) addName = None \<longrightarrow>
        (\<exists>gtm2 otm2 m2 field.
           augmentRelationshipMutationAPI X d tdm gtm otm config = Inr (tdm, gtm2, otm2)
           \<and> otm2 OperationType_MUTATION = Some m2
           \<and> getFieldDefinition (ot_fields m2) addName = Some field
           \<and> fd_arguments field =
               [\<lparr>iv_name = NameNode ''from'',
                 iv_type = NamedTypeNode (NameNode (''_'' @ fromType d @ ''Input''))
                             {NON_NULL_NAMED_TYPE},
                 iv_directives = []\<rparr>,
                \<lparr>iv_name = NameNode ''to'',
                 iv_type = NamedTypeNode (NameNode (''_'' @ toType d @ ''Input''))
                             {NON_NULL_NAMED_TYPE},
                 iv_directives = []\<rparr>] @
               (if propertyOutputFields d = [] then []
                else [\<lparr>iv_name = NameNode ''data'',
                       iv_type = NamedTypeNode (NameNode (''_'' @ outputType d @ ''Input''))
                                   {NON_NULL_NAMED_TYPE},
                       iv_directives = []\<rparr>])))
   \<and> (otm OperationType_MUTATION = Some m
        \<and> shouldAugmentRelationshipField X config ''mutation'' (fromType d) (toType d)
        \<and> buildRelationshipMutationName RelationshipMutation_DELETE (typeName d) (fieldName d) =
            Inr removeName
        \<and> getFieldDefinition (ot_fields m) removeName = None \<longrightarrow>
        (\<exists>gtm2 otm2 m2 field.
           augmentRelationshipMutationAPI X d tdm gtm otm config = Inr (tdm, gtm2, otm2)
           \<and> otm2 OperationType_MUTATION = Some m2
           \<and> getFieldDefinition (ot_fields m2) removeName = Some field
           \<and> fd_arguments field =
               [\<lparr>iv_name = NameNode ''from'',
                 iv_type = NamedTypeNode (NameNode (''_'' @ fromType d @ ''Input''))
                             {NON_NULL_NAMED_TYPE},
                 iv_directives = []\<rparr>,
                \<lparr>iv_name = NameNode ''to'',
                 iv_type = NamedTypeNode (NameNode (''_'' @ toType d @ ''Input''))
                             {NON_NULL_NAMED_TYPE},
                 iv_directives = []\<rparr>]))"
proof -
  note arg_defs = buildRelationshipMutationArguments_def buildNodeSelectionArguments_def
    buildRelationshipPropertyInputArgument_def buildInputValue_def buildName_def
    buildNamedType_def RelationshipDirectionField_FROM_def RelationshipDirectionField_TO_def
  have cd: "RelationshipMutation_CREATE = RelationshipMutation_CREATE \<or>
            RelationshipMutation_CREATE = RelationshipMutation_DELETE"
    and dd: "RelationshipMutation_DELETE = RelationshipMutation_CREATE \<or>
             RelationshipMutation_DELETE = RelationshipMutation_DELETE"
    by simp_all
  have builder: "buildRelationshipMutationArguments RelationshipMutation_DELETE fromT toT pofs outT =
     [\<lparr>iv_name = NameNode ''from'',
       iv_type = NamedTypeNode (NameNode (''_'' @ fromT @ ''Input'')) {NON_NULL_NAMED_TYPE},
       iv_directives = []\<rparr>,
      \<lparr>iv_name = NameNode ''to'',
       iv_type = NamedTypeNode (NameNode (''_'' @ toT @ ''Input'')) {NON_NULL_NAMED_TYPE},
       iv_directives = []\<rparr>]
   \<and> buildRelationshipMutationArguments RelationshipMutation_CREATE fromT toT [] outT =
     [\<lparr>iv_name = NameNode ''from'',
       iv_type = NamedTypeNode (NameNode (''_'' @ fromT @ ''Input'')) {NON_NULL_NAMED_TYPE},
       iv_directives = []\<rparr>,
      \<lparr>iv_name = NameNode ''to'',
       iv_type = NamedTypeNode (NameNode (''_'' @ toT @ ''Input'')) {NON_NULL_NAMED_TYPE},
       iv_directives = []\<rparr>]
   \<and> buildRelationshipMutationArguments RelationshipMutation_CREATE fromT toT (p # ps) outT =
     [\<lparr>iv_name = NameNode ''from'',
       iv_type = NamedTypeNode (NameNode (''_'' @ fromT @ ''Input'')) {NON_NULL_NAMED_TYPE},
       iv_directives = []\<rparr>,
      \<lparr>iv_name = NameNode ''to'',
       iv_type = NamedTypeNode (NameNode (''_'' @ toT @ ''Input'')) {NON_NULL_NAMED_TYPE},
       iv_directives = []\<rparr>,
      \<lparr>iv_name = NameNode ''data'',
       iv_type = NamedTypeNode (NameNode (''_'' @ outT @ ''Input'')) {NON_NULL_NAMED_TYPE},
       iv_directives = []\<rparr>]"
    by (simp add: arg_defs CREATE_neq_DELETE [symmetric])
  have add: "\<exists>gtm2 otm2 m2 field.
           augmentRelationshipMutationAPI X d tdm gtm otm config = Inr (tdm, gtm2, otm2)
           \<and> otm2 OperationType_MUTATION = Some m2
           \<and> getFieldDefinition (ot_fields m2) addName = Some field
           \<and> fd_arguments field =
               [\<lparr>iv_name = NameNode ''from'',
                 iv_type = NamedTypeNode (NameNode (''_'' @ fromType d @ ''Input''))
                             {NON_NULL_NAMED_TYPE},
                 iv_directives = []\<rparr>,
                \<lparr>iv_name = NameNode ''to'',
                 iv_type = NamedTypeNode (NameNode (''_'' @ toType d @ ''Input''))
                             {NON_NULL_NAMED_TYPE},
                 iv_directives = []\<rparr>] @
               (if propertyOutputFields d = [] then []
                else [\<lparr>iv_name = NameNode ''data'',
                       iv_type = NamedTypeNode (NameNode (''_'' @ outputType d @ ''Input''))
                                   {NON_NULL_NAMED_TYPE},
                       iv_directives = []\<rparr>])"
    if h: "otm OperationType_MUTATION = Some m
        \<and> shouldAugmentRelationshipField X config ''mutation'' (fromType d) (toType d)
        \<and> buildRelationshipMutationName RelationshipMutation_CREATE (typeName d) (fieldName d) =
            Inr addName
        \<and> getFieldDefinition (ot_fields m) addName = None"
  proof -
    from h have m: "otm OperationType_MUTATION = Some m"
      and s: "shouldAugmentRelationshipField X config ''mutation'' (fromType d) (toType d)"
      and n: "buildRelationshipMutationName RelationshipMutation_CREATE (typeName d)
                (fieldName d) = Inr addName"
      and absent: "getFieldDefinition (ot_fields m) addName = None"
      by simp_all
    from augment_registers_field
      [where otm = otm and tdm = tdm and gtm = gtm, OF m s cd n absent]
    obtain gtm2 otm2 m2 where
      r1: "augmentRelationshipMutationAPI X d tdm gtm otm config = Inr (tdm, gtm2, otm2)"
      and r2: "otm2 OperationType_MUTATION = Some m2"
      and r3: "getFieldDefinition (ot_fields m2) addName =
         Some \<lparr>fd_name = NameNode addName,
               fd_type = NamedTypeNode (NameNode (''_'' @ addName @ ''Payload'')) {},
               fd_arguments =
                 buildRelationshipMutationArguments RelationshipMutation_CREATE (fromType d)
                   (toType d) (propertyOutputFields d) (outputType d),
               fd_directives =
                 buildRelationshipMutationDirectives X RelationshipMutation_CREATE
                   (relationshipName d) (fromType d) (toType d) (propertyOutputFields d)
                   config\<rparr>"
      by blast
    show ?thesis
      apply (intro exI conjI)
         apply (rule r1)
        apply (rule r2)
       apply (rule r3)
      apply (simp add: arg_defs)
      done
  qed
  have remove: "\<exists>gtm2 otm2 m2 field.
           augmentRelationshipMutationAPI X d tdm gtm otm config = Inr (tdm, gtm2, otm2)
           \<and> otm2 OperationType_MUTATION = Some m2
           \<and> getFieldDefinition (ot_fields m2) removeName = Some field
           \<and> fd_arguments field =
               [\<lparr>iv_name = NameNode ''from'',
                 iv_type = NamedTypeNode (NameNode (''_'' @ fromType d @ ''Input''))
                             {NON_NULL_NAMED_TYPE},
                 iv_directives = []\<rparr>,
                \<lparr>iv_name = NameNode ''to'',
                 iv_type = NamedTypeNode (NameNode (''_'' @ toType d @ ''Input''))
                             {NON_NULL_NAMED_TYPE},
                 iv_directives = []\<rparr>]"
    if h: "otm OperationType_MUTATION = Some m
        \<and> shouldAugmentRelationshipField X config ''mutation'' (fromType d) (toType d)
        \<and> buildRelationshipMutationName RelationshipMutation_DELETE (typeName d) (fieldName d) =
            Inr removeName
        \<and> getFieldDefinition (ot_fields m) removeName = None"
  proof -
    from h have m: "otm OperationType_MUTATION = Some m"
      and s: "shouldAugmentRelationshipField X config ''mutation'' (fromType d) (toType d)"
      and n: "buildRelationshipMutationName RelationshipMutation_DELETE (typeName d)
                (fieldName d) = Inr removeName"
      and absent: "getFieldDefinition (ot_fields m) removeName = None"
      by simp_all
    from augment_registers_field
      [where otm = otm and tdm = tdm and gtm = gtm, OF m s dd n absent]
    obtain gtm2 otm2 m2 where
      r1: "augmentRelationshipMutationAPI X d tdm gtm otm config = Inr (tdm, gtm2, otm2)"
      and r2: "otm2 OperationType_MUTATION = Some m2"
      and r3: "getFieldDefinition (ot_fields m2) removeName =
         Some \<lparr>fd_name = NameNode removeName,
               fd_type = NamedTypeNode (NameNode (''_'' @ removeName @ ''Payload'')) {},
               fd_arguments =
                 buildRelationshipMutationArguments RelationshipMutation_DELETE (fromType d)
                   (toType d) (propertyOutputFields d) (outputType d),
               fd_directives =
                 buildRelationshipMutationDirectives X RelationshipMutation_DELETE
                   (relationshipName d) (fromType d) (toType d) (propertyOutputFields d)
                   config\<rparr>"
      by blast
    show ?thesis
      apply (intro exI conjI)
         apply (rule r1)
        apply (rule r2)
       apply (rule r3)
      apply (simp add: arg_defs CREATE_neq_DELETE [symmetric])
      done
  qed
  from builder add remove show ?thesis by blast
qed

theorem generated_field_arguments_scenario:
  "(\<exists>gtm2 otm2 m2 field.
      augmentRelationshipMutationAPI scenario_collaborators scenario_descriptor () Map.empty
        scenario_operationTypeMap False = Inr ((), gtm2, otm2)
      \<and> otm2 OperationType_MUTATION = Some m2
      \<and> getFieldDefinition (ot_fields m2) ''AddPersonKnows'' = Some field
      \<and> fd_arguments field =
          [\<lparr>iv_name = NameNode ''from'',
            iv_type = NamedTypeNode (NameNode ''_PersonInput'') {NON_NULL_NAMED_TYPE},
            iv_directives = []\<rparr>,
           \<lparr>iv_name = NameNode ''to'',
            iv_type = NamedTypeNode (NameNode ''_PersonInput'') {NON_NULL_NAMED_TYPE},
            iv_directives = []\<rparr>,
           \<lparr>iv_name = NameNode ''data'',
            iv_type = NamedTypeNode (NameNode ''_KnowsInput'') {NON_NULL_NAMED_TYPE},
            iv_directives = []\<rparr>])
   \<and> (\<exists>gtm2 otm2 m2 field.
        augmentRelationshipMutationAPI scenario_collaborators scenario_descriptor () Map.empty
          scenario_operationTypeMap False = Inr ((), gtm2, otm2)
        \<and> otm2 OperationType_MUTATION = Some m2
        \<and> getFieldDefinition (ot_fields m2) ''RemovePersonKnows'' = Some field
        \<and> fd_arguments field =
            [\<lparr>iv_name = NameNode ''from'',
              iv_type = NamedTypeNode (NameNode ''_PersonInput'') {NON_NULL_NAMED_TYPE},
              iv_directives = []\<rparr>,
             \<lparr>iv_name = NameNode ''to'',
              iv_type = NamedTypeNode (NameNode ''_PersonInput'') {NON_NULL_NAMED_TYPE},
              iv_directives = []\<rparr>])"
proof -
  have h: "scenario_operationTypeMap OperationType_MUTATION = Some scenario_mutationType
      \<and> shouldAugmentRelationshipField scenario_collaborators False ''mutation''
          (fromType scenario_descriptor) (toType scenario_descriptor)
      \<and> buildRelationshipMutationName RelationshipMutation_CREATE
          (typeName scenario_descriptor) (fieldName scenario_descriptor) = Inr ''AddPersonKnows''
      \<and> getFieldDefinition (ot_fields scenario_mutationType) ''AddPersonKnows'' = None"
    and g: "scenario_operationTypeMap OperationType_MUTATION = Some scenario_mutationType
      \<and> shouldAugmentRelationshipField scenario_collaborators False ''mutation''
          (fromType scenario_descriptor) (toType scenario_descriptor)
      \<and> buildRelationshipMutationName RelationshipMutation_DELETE
          (typeName scenario_descriptor) (fieldName scenario_descriptor) =
          Inr ''RemovePersonKnows''
      \<and> getFieldDefinition (ot_fields scenario_mutationType) ''RemovePersonKnows'' = None"
    by (simp_all add: scenario_names scenario_operationTypeMap_def scenario_collaborators_def
        scenario_mutationType_def getFieldDefinition_def)
  note T = generated_field_arguments_from_to_then_data [where otm = scenario_operationTypeMap and m = scenario_mutationType
      and X = scenario_collaborators and config = False and d = scenario_descriptor
      and tdm = "()" and gtm = Map.empty and addName = "''AddPersonKnows''"
      and removeName = "''RemovePersonKnows''"]
  from T [THEN conjunct2, THEN conjunct2, THEN conjunct2, THEN conjunct1, THEN mp, OF h]
    T [THEN conjunct2, THEN conjunct2, THEN conjunct2, THEN conjunct2, THEN mp, OF g]
  show ?thesis
    by (simp add: scenario_descriptor_def)
qed

section \<open>The type synthesizer\<close>

text \<open>
  Claim C4. The property input type \<open>_<outputType>Input\<close> is written only by the CREATE
  action and only when there is at least one property input value. Its fields are the
  property input values whose directives hold no cypher directive, in their order, each
  rebuilt from its name and its type alone (no directive survives). Any other action, DELETE
  among them, leaves the generated-type map as it is, and the whole DELETE synthesis
  leaves the entry of that name untouched.
\<close>

theorem property_input_type_create_only_without_computed:
  "buildRelationshipMutationPropertyInputType RelationshipMutation_CREATE outT (v # vs) gtm =
     gtm(''_'' @ outT @ ''Input'' \<mapsto>
       InputObjectTypeDef
         \<lparr>iot_name = NameNode (''_'' @ outT @ ''Input''),
          iot_fields =
            map (\<lambda>inputValue.
                   \<lparr>iv_name = NameNode (piv_name inputValue),
                    iv_type = NamedTypeNode (NameNode (nt_name (piv_type inputValue)))
                                (nt_wrappers (piv_type inputValue)),
                    iv_directives = []\<rparr>)
              (filter (\<lambda>inputValue. CYPHER \<notin> directive_name ` set (piv_directives inputValue))
                 (v # vs))\<rparr>)
   \<and> buildRelationshipMutationPropertyInputType RelationshipMutation_CREATE outT [] gtm = gtm
   \<and> (mutationAction \<noteq> RelationshipMutation_CREATE \<longrightarrow>
        buildRelationshipMutationPropertyInputType mutationAction outT pivs gtm = gtm)
   \<and> (otm OperationType_MUTATION = Some mutationType \<longrightarrow>
        (\<exists>otm1 gtm1.
           buildRelationshipMutationAPI X RelationshipMutation_DELETE mutationName relName
             fromT toT pivs pofs outT gtm otm config = Inr (otm1, gtm1)
           \<and> gtm1 (''_'' @ outT @ ''Input'') = gtm (''_'' @ outT @ ''Input'')))"
proof -
  have create: "buildRelationshipMutationPropertyInputType RelationshipMutation_CREATE outT (v # vs) gtm =
     gtm(''_'' @ outT @ ''Input'' \<mapsto>
       InputObjectTypeDef
         \<lparr>iot_name = NameNode (''_'' @ outT @ ''Input''),
          iot_fields =
            map (\<lambda>inputValue.
                   \<lparr>iv_name = NameNode (piv_name inputValue),
                    iv_type = NamedTypeNode (NameNode (nt_name (piv_type inputValue)))
                                (nt_wrappers (piv_type inputValue)),
                    iv_directives = []\<rparr>)
              (filter (\<lambda>inputValue. CYPHER \<notin> directive_name ` set (piv_directives inputValue))
                 (v # vs))\<rparr>)"
    unfolding buildRelationshipMutationPropertyInputType_def Let_def
    by (simp only: getDirective_None_iff buildInputObjectType_def buildInputValue_def
        buildName_def buildNamedType_def) simp
  have other: "buildRelationshipMutationPropertyInputType a outT ps gtm = gtm"
    if "a \<noteq> RelationshipMutation_CREATE \<or> ps = []" for a ps
    using that by (auto simp: buildRelationshipMutationPropertyInputType_def)
  have api: "\<exists>otm1 gtm1.
           buildRelationshipMutationAPI X RelationshipMutation_DELETE mutationName relName
             fromT toT pivs pofs outT gtm otm config = Inr (otm1, gtm1)
           \<and> gtm1 (''_'' @ outT @ ''Input'') = gtm (''_'' @ outT @ ''Input'')"
    if "otm OperationType_MUTATION = Some mutationType"
    using that
    by (simp add: buildRelationshipMutationAPI_def buildRelationshipMutationField_run
        other CREATE_neq_DELETE [symmetric] buildRelationshipMutationOutputType_def
        Let_def Input_neq_Payload [simplified])
  from create other api show ?thesis by (simp add: CREATE_neq_DELETE [symmetric])
qed

theorem property_input_type_scenario:
  "buildRelationshipMutationPropertyInputType RelationshipMutation_CREATE ''Knows''
     [scenario_since_input, scenario_score_input] Map.empty =
     [''_KnowsInput'' \<mapsto>
        InputObjectTypeDef
          \<lparr>iot_name = NameNode ''_KnowsInput'',
           iot_fields =
             [\<lparr>iv_name = NameNode ''since'', iv_type = NamedTypeNode (NameNode ''Int'') {},
               iv_directives = []\<rparr>]\<rparr>]
   \<and> buildRelationshipMutationPropertyInputType RelationshipMutation_DELETE ''Knows''
       [scenario_since_input, scenario_score_input] Map.empty = Map.empty
   \<and> (\<exists>otm1 gtm1.
         buildRelationshipMutationAPI scenario_collaborators RelationshipMutation_DELETE
           ''RemovePersonKnows'' ''KNOWS'' ''Person'' ''Person''
           [scenario_since_input, scenario_score_input] [scenario_since_field] ''Knows''
           Map.empty scenario_operationTypeMap False = Inr (otm1, gtm1)
         \<and> gtm1 ''_KnowsInput'' = None)"
  using property_input_type_create_only_without_computed
    [where outT = "''Knows''" and v = scenario_since_input and vs = "[scenario_score_input]"
       and gtm = Map.empty and mutationAction = RelationshipMutation_DELETE
       and pivs = "[scenario_since_input, scenario_score_input]"
       and otm = scenario_operationTypeMap and mutationType = scenario_mutationType
       and X = scenario_collaborators and mutationName = "''RemovePersonKnows''"
       and relName = "''KNOWS''" and fromT = "''Person''" and toT = "''Person''"
       and pofs = "[scenario_since_field]" and config = False]
  by (simp add: CREATE_neq_DELETE [symmetric] scenario_operationTypeMap_def
      scenario_since_input_def scenario_score_input_def)

text \<open>
  Claim C5. For CREATE and for DELETE the payload type \<open>_<mutationName>Payload\<close> starts
  with the node output fields that \<open>buildNodeOutputFields\<close> returns for the two endpoint
  types. CREATE appends the property output fields in their order, where a field that
  carries the cypher directive loses its arguments and every other field is unchanged.
  The DELETE payload holds the node output fields only.
\<close>

theorem payload_fields_node_fields_then_properties:
  "buildRelationshipMutationOutputType X RelationshipMutation_CREATE mutationOutputType pofs
     relName fromT toT gtm =
     gtm(mutationOutputType \<mapsto>
       ObjectTypeDef
         \<lparr>ot_name = NameNode mutationOutputType,
          ot_fields =
            buildNodeOutputFields X fromT toT @
            map (\<lambda>field. if CYPHER \<in> directive_name ` set (fd_directives field)
                          then field\<lparr>fd_arguments := []\<rparr> else field) pofs,
          ot_directives = [RelationDirective relName fromT toT]\<rparr>)
   \<and> buildRelationshipMutationOutputType X RelationshipMutation_DELETE mutationOutputType pofs
       relName fromT toT gtm =
     gtm(mutationOutputType \<mapsto>
       ObjectTypeDef
         \<lparr>ot_name = NameNode mutationOutputType,
          ot_fields = buildNodeOutputFields X fromT toT,
          ot_directives = [RelationDirective relName fromT toT]\<rparr>)
   \<and> (otm OperationType_MUTATION = Some mutationType \<and>
        (mutationAction = RelationshipMutation_CREATE \<or>
         mutationAction = RelationshipMutation_DELETE) \<longrightarrow>
        (\<exists>otm1 gtm1.
           buildRelationshipMutationAPI X mutationAction mutationName relName fromT toT pivs
             pofs outT gtm otm config = Inr (otm1, gtm1)
           \<and> gtm1 (''_'' @ mutationName @ ''Payload'') =
               buildRelationshipMutationOutputType X mutationAction
                 (''_'' @ mutationName @ ''Payload'') pofs relName fromT toT gtm
                 (''_'' @ mutationName @ ''Payload'')))"
proof -
  have create: "buildRelationshipMutationOutputType X RelationshipMutation_CREATE
      mutationOutputType pofs relName fromT toT gtm =
     gtm(mutationOutputType \<mapsto>
       ObjectTypeDef
         \<lparr>ot_name = NameNode mutationOutputType,
          ot_fields =
            buildNodeOutputFields X fromT toT @
            map (\<lambda>field. if CYPHER \<in> directive_name ` set (fd_directives field)
                          then field\<lparr>fd_arguments := []\<rparr> else field) pofs,
          ot_directives = [RelationDirective relName fromT toT]\<rparr>)"
    by (simp add: buildRelationshipMutationOutputType_def Let_def isCypherField_iff
        buildObjectType_def buildName_def buildRelationDirective_def)
  have delete: "buildRelationshipMutationOutputType X RelationshipMutation_DELETE
      mutationOutputType pofs relName fromT toT gtm =
     gtm(mutationOutputType \<mapsto>
       ObjectTypeDef
         \<lparr>ot_name = NameNode mutationOutputType,
          ot_fields = buildNodeOutputFields X fromT toT,
          ot_directives = [RelationDirective relName fromT toT]\<rparr>)"
    by (simp add: buildRelationshipMutationOutputType_def Let_def CREATE_neq_DELETE [symmetric]
        buildObjectType_def buildName_def buildRelationDirective_def)
  have api: "\<exists>otm1 gtm1.
           buildRelationshipMutationAPI X mutationAction mutationName relName fromT toT pivs
             pofs outT gtm otm config = Inr (otm1, gtm1)
           \<and> gtm1 (''_'' @ mutationName @ ''Payload'') =
               buildRelationshipMutationOutputType X mutationAction
                 (''_'' @ mutationName @ ''Payload'') pofs relName fromT toT gtm
                 (''_'' @ mutationName @ ''Payload'')"
    if "otm OperationType_MUTATION = Some mutationType"
      and "mutationAction = RelationshipMutation_CREATE \<or>
           mutationAction = RelationshipMutation_DELETE"
    using that
    by (auto simp add: buildRelationshipMutationAPI_def Let_def
        buildRelationshipMutationField_run buildRelationshipMutationOutputType_def)
  from create delete api show ?thesis by blast
qed

theorem payload_fields_scenario:
  "buildRelationshipMutationOutputType scenario_collaborators RelationshipMutation_CREATE
     ''_AddPersonKnowsPayload'' [scenario_since_field, scenario_score_field]
     ''KNOWS'' ''Person'' ''Person'' Map.empty ''_AddPersonKnowsPayload'' =
     Some (ObjectTypeDef
       \<lparr>ot_name = NameNode ''_AddPersonKnowsPayload'',
        ot_fields =
          [\<lparr>fd_name = NameNode ''from'', fd_type = NamedTypeNode (NameNode ''Person'') {},
            fd_arguments = [], fd_directives = []\<rparr>,
           \<lparr>fd_name = NameNode ''to'', fd_type = NamedTypeNode (NameNode ''Person'') {},
            fd_arguments = [], fd_directives = []\<rparr>,
           scenario_since_field,
           scenario_score_field\<lparr>fd_arguments := []\<rparr>],
        ot_directives = [RelationDirective ''KNOWS'' ''Person'' ''Person'']\<rparr>)
   \<and> (\<exists>otm1 gtm1.
         buildRelationshipMutationAPI scenario_collaborators RelationshipMutation_DELETE
           ''RemovePersonKnows'' ''KNOWS'' ''Person'' ''Person''
           [scenario_since_input] [scenario_since_field, scenario_score_field] ''Knows''
           Map.empty scenario_operationTypeMap False = Inr (otm1, gtm1)
         \<and> gtm1 ''_RemovePersonKnowsPayload'' =
             Some (ObjectTypeDef
               \<lparr>ot_name = NameNode ''_RemovePersonKnowsPayload'',
                ot_fields =
                  [\<lparr>fd_name = NameNode ''from'',
                    fd_type = NamedTypeNode (NameNode ''Person'') {},
                    fd_arguments = [], fd_directives = []\<rparr>,
                   \<lparr>fd_name = NameNode ''to'',
                    fd_type = NamedTypeNode (NameNode ''Person'') {},
                    fd_arguments = [], fd_directives = []\<rparr>],
                ot_directives = [RelationDirective ''KNOWS'' ''Person'' ''Person'']\<rparr>))"
  using payload_fields_node_fields_then_properties
    [where X = scenario_collaborators and mutationOutputType = "''_AddPersonKnowsPayload''"
       and pofs = "[scenario_since_field, scenario_score_field]"
       and relName = "''KNOWS''" and fromT = "''Person''" and toT = "''Person''"
       and gtm = Map.empty and otm = scenario_operationTypeMap
       and mutationType = scenario_mutationType
       and mutationAction = RelationshipMutation_DELETE
       and mutationName = "''RemovePersonKnows''" and pivs = "[scenario_since_input]"
       and outT = "''Knows''" and config = False]
    payload_fields_node_fields_then_properties
    [where X = scenario_collaborators and mutationOutputType = "''_RemovePersonKnowsPayload''"
       and pofs = "[scenario_since_field, scenario_score_field]"
       and relName = "''KNOWS''" and fromT = "''Person''" and toT = "''Person''"
       and gtm = Map.empty and otm = Map.empty]
  by (auto simp add: scenario_operationTypeMap_def scenario_collaborators_def
      scenario_since_field_def scenario_score_field_def)

section \<open>The directive assembler\<close>

text \<open>
  Claim C7. The directive list of a generated mutation field starts with the mutation
  metadata directive built from the relationship name and the two endpoint types. With
  scope-based authorization enabled, exactly one authorization directive follows, with
  two scopes, the first for \<open>fromType\<close> and the second for \<open>toType\<close>, both tagged
  \<open>Create\<close> on the Add field and \<open>Delete\<close> on the Remove field. With authorization
  disabled the list is the metadata directive alone. The first three conjuncts give the
  lists the directive assembler returns; the last two read the directives off the field
  found under the computed name in the Mutation field list the orchestrator returns.
\<close>

theorem generated_field_directives_meta_first_then_auth:
  "(\<exists>rest. buildRelationshipMutationDirectives X mutationAction relName fromT toT pofs config =
            MutationMetaDirective relName fromT toT # rest)
   \<and> (useAuthDirective X config HAS_SCOPE \<longrightarrow>
        buildRelationshipMutationDirectives X RelationshipMutation_CREATE relName fromT toT
          pofs config =
          [MutationMetaDirective relName fromT toT,
           AuthScopeDirective [Scope fromT ''Create'', Scope toT ''Create'']]
        \<and> buildRelationshipMutationDirectives X RelationshipMutation_DELETE relName fromT toT
            pofs config =
          [MutationMetaDirective relName fromT toT,
           AuthScopeDirective [Scope fromT ''Delete'', Scope toT ''Delete'']])
   \<and> (\<not> useAuthDirective X config HAS_SCOPE \<longrightarrow>
        buildRelationshipMutationDirectives X mutationAction relName fromT toT pofs config =
          [MutationMetaDirective relName fromT toT])
   \<and> (otm OperationType_MUTATION = Some m
        \<and> shouldAugmentRelationshipField X config ''mutation'' (fromType d) (toType d)
        \<and> buildRelationshipMutationName RelationshipMutation_CREATE (typeName d) (fieldName d) =
            Inr addName
        \<and> getFieldDefinition (ot_fields m) addName = None \<longrightarrow>
        (\<exists>gtm2 otm2 m2 field.
           augmentRelationshipMutationAPI X d tdm gtm otm config = Inr (tdm, gtm2, otm2)
           \<and> otm2 OperationType_MUTATION = Some m2
           \<and> getFieldDefinition (ot_fields m2) addName = Some field
           \<and> fd_directives field =
               MutationMetaDirective (relationshipName d) (fromType d) (toType d) #
               (if useAuthDirective X config HAS_SCOPE
                then [AuthScopeDirective
                        [Scope (fromType d) ''Create'', Scope (toType d) ''Create'']]
                else [])))
   \<and> (otm OperationType_MUTATION = Some m
        \<and> shouldAugmentRelationshipField X config ''mutation'' (fromType d) (toType d)
        \<and> buildRelationshipMutationName RelationshipMutation_DELETE (typeName d) (fieldName d) =
            Inr removeName
        \<and> getFieldDefinition (ot_fields m) removeName = None \<longrightarrow>
        (\<exists>gtm2 otm2 m2 field.
           augmentRelationshipMutationAPI X d tdm gtm otm config = Inr (tdm, gtm2, otm2)
           \<and> otm2 OperationType_MUTATION = Some m2
           \<and> getFieldDefinition (ot_fields m2) removeName = Some field
           \<and> fd_directives field =
               MutationMetaDirective (relationshipName d) (fromType d) (toType d) #
               (if useAuthDirective X config HAS_SCOPE
                then [AuthScopeDirective
                        [Scope (fromType d) ''Delete'', Scope (toType d) ''Delete'']]
                else [])))"
proof -
  note dir_defs = buildRelationshipMutationDirectives_def Let_def
    buildMutationMetaDirective_def buildAuthScopeDirective_def
  have cd: "RelationshipMutation_CREATE = RelationshipMutation_CREATE \<or>
            RelationshipMutation_CREATE = RelationshipMutation_DELETE"
    and dd: "RelationshipMutation_DELETE = RelationshipMutation_CREATE \<or>
             RelationshipMutation_DELETE = RelationshipMutation_DELETE"
    by simp_all
  have builder: "(\<exists>rest. buildRelationshipMutationDirectives X mutationAction relName fromT toT pofs config =
            MutationMetaDirective relName fromT toT # rest)
   \<and> (useAuthDirective X config HAS_SCOPE \<longrightarrow>
        buildRelationshipMutationDirectives X RelationshipMutation_CREATE relName fromT toT
          pofs config =
          [MutationMetaDirective relName fromT toT,
           AuthScopeDirective [Scope fromT ''Create'', Scope toT ''Create'']]
        \<and> buildRelationshipMutationDirectives X RelationshipMutation_DELETE relName fromT toT
            pofs config =
          [MutationMetaDirective relName fromT toT,
           AuthScopeDirective [Scope fromT ''Delete'', Scope toT ''Delete'']])
   \<and> (\<not> useAuthDirective X config HAS_SCOPE \<longrightarrow>
        buildRelationshipMutationDirectives X mutationAction relName fromT toT pofs config =
          [MutationMetaDirective relName fromT toT])"
    by (simp add: dir_defs CREATE_neq_DELETE [symmetric])
  have add: "\<exists>gtm2 otm2 m2 field.
           augmentRelationshipMutationAPI X d tdm gtm otm config = Inr (tdm, gtm2, otm2)
           \<and> otm2 OperationType_MUTATION = Some m2
           \<and> getFieldDefinition (ot_fields m2) addName = Some field
           \<and> fd_directives field =
               MutationMetaDirective (relationshipName d) (fromType d) (toType d) #
               (if useAuthDirective X config HAS_SCOPE
                then [AuthScopeDirective
                        [Scope (fromType d) ''Create'', Scope (toType d) ''Create'']]
                else [])"
    if h: "otm OperationType_MUTATION = Some m
        \<and> shouldAugmentRelationshipField X config ''mutation'' (fromType d) (toType d)
        \<and> buildRelationshipMutationName RelationshipMutation_CREATE (typeName d) (fieldName d) =
            Inr addName
        \<and> getFieldDefinition (ot_fields m) addName = None"
  proof -
    from h have m: "otm OperationType_MUTATION = Some m"
      and s: "shouldAugmentRelationshipField X config ''mutation'' (fromType d) (toType d)"
      and n: "buildRelationshipMutationName RelationshipMutation_CREATE (typeName d)
                (fieldName d) = Inr addName"
      and absent: "getFieldDefinition (ot_fields m) addName = None"
      by simp_all
    from augment_registers_field
      [where otm = otm and tdm = tdm and gtm = gtm, OF m s cd n absent]
    obtain gtm2 otm2 m2 where
      r1: "augmentRelationshipMutationAPI X d tdm gtm otm config = Inr (tdm, gtm2, otm2)"
      and r2: "otm2 OperationType_MUTATION = Some m2"
      and r3: "getFieldDefinition (ot_fields m2) addName =
         Some \<lparr>fd_name = NameNode addName,
               fd_type = NamedTypeNode (NameNode (''_'' @ addName @ ''Payload'')) {},
               fd_arguments =
                 buildRelationshipMutationArguments RelationshipMutation_CREATE (fromType d)
                   (toType d) (propertyOutputFields d) (outputType d),
               fd_directives =
                 buildRelationshipMutationDirectives X RelationshipMutation_CREATE
                   (relationshipName d) (fromType d) (toType d) (propertyOutputFields d)
                   config\<rparr>"
      by blast
    show ?thesis
      apply (intro exI conjI)
         apply (rule r1)
        apply (rule r2)
       apply (rule r3)
      apply (simp add: dir_defs)
      done
  qed
  have remove: "\<exists>gtm2 otm2 m2 field.
           augmentRelationshipMutationAPI X d tdm gtm otm config = Inr (tdm, gtm2, otm2)
           \<and> otm2 OperationType_MUTATION = Some m2
           \<and> getFieldDefinition (ot_fields m2) removeName = Some field
           \<and> fd_directives field =
               MutationMetaDirective (relationshipName d) (fromType d) (toType d) #
               (if useAuthDirective X config HAS_SCOPE
                then [AuthScopeDirective
                        [Scope (fromType d) ''Delete'', Scope (toType d) ''Delete'']]
                else [])"
    if h: "otm OperationType_MUTATION = Some m
        \<and> shouldAugmentRelationshipField X config ''mutation'' (fromType d) (toType d)
        \<and> buildRelationshipMutationName RelationshipMutation_DELETE (typeName d) (fieldName d) =
            Inr removeName
        \<and> getFieldDefinition (ot_fields m) removeName = None"
  proof -
    from h have m: "otm OperationType_MUTATION = Some m"
      and s: "shouldAugmentRelationshipField X config ''mutation'' (fromType d) (toType d)"
      and n: "buildRelationshipMutationName RelationshipMutation_DELETE (typeName d)
                (fieldName d) = Inr removeName"
      and absent: "getFieldDefinition (ot_fields m) removeName = None"
      by simp_all
    from augment_registers_field
      [where otm = otm and tdm = tdm and gtm = gtm, OF m s dd n absent]
    obtain gtm2 otm2 m2 where
      r1: "augmentRelationshipMutationAPI X d tdm gtm otm config = Inr (tdm, gtm2, otm2)"
      and r2: "otm2 OperationType_MUTATION = Some m2"
      and r3: "getFieldDefinition (ot_fields m2) removeName =
         Some \<lparr>fd_name = NameNode removeName,
               fd_type = NamedTypeNode (NameNode (''_'' @ removeName @ ''Payload'')) {},
               fd_arguments =
                 buildRelationshipMutationArguments RelationshipMutation_DELETE (fromType d)
                   (toType d) (propertyOutputFields d) (outputType d),
               fd_directives =
                 buildRelationshipMutationDirectives X RelationshipMutation_DELETE
                   (relationshipName d) (fromType d) (toType d) (propertyOutputFields d)
                   config\<rparr>"
      by blast
    show ?thesis
      apply (intro exI conjI)
         apply (rule r1)
        apply (rule r2)
       apply (rule r3)
      apply (simp add: dir_defs CREATE_neq_DELETE [symmetric])
      done
  qed
  from builder add remove show ?thesis by blast
qed

theorem generated_field_directives_scenario:
  "(\<exists>gtm2 otm2 m2 field.
      augmentRelationshipMutationAPI scenario_collaborators
        (scenario_descriptor\<lparr>toType := ''Movie''\<rparr>) () Map.empty
        scenario_operationTypeMap True = Inr ((), gtm2, otm2)
      \<and> otm2 OperationType_MUTATION = Some m2
      \<and> getFieldDefinition (ot_fields m2) ''AddPersonKnows'' = Some field
      \<and> fd_directives field =
          [MutationMetaDirective ''KNOWS'' ''Person'' ''Movie'',
           AuthScopeDirective [Scope ''Person'' ''Create'', Scope ''Movie'' ''Create'']])
   \<and> (\<exists>gtm2 otm2 m2 field.
        augmentRelationshipMutationAPI scenario_collaborators
          (scenario_descriptor\<lparr>toType := ''Movie''\<rparr>) () Map.empty
          scenario_operationTypeMap True = Inr ((), gtm2, otm2)
        \<and> otm2 OperationType_MUTATION = Some m2
        \<and> getFieldDefinition (ot_fields m2) ''RemovePersonKnows'' = Some field
        \<and> fd_directives field =
            [MutationMetaDirective ''KNOWS'' ''Person'' ''Movie'',
             AuthScopeDirective [Scope ''Person'' ''Delete'', Scope ''Movie'' ''Delete'']])
   \<and> (\<exists>gtm2 otm2 m2 field.
        augmentRelationshipMutationAPI scenario_collaborators
          (scenario_descriptor\<lparr>toType := ''Movie''\<rparr>) () Map.empty
          scenario_operationTypeMap False = Inr ((), gtm2, otm2)
        \<and> otm2 OperationType_MUTATION = Some m2
        \<and> getFieldDefinition (ot_fields m2) ''RemovePersonKnows'' = Some field
        \<and> fd_directives field = [MutationMetaDirective ''KNOWS'' ''Person'' ''Movie''])
   \<and> buildRelationshipMutationDirectives scenario_collaborators RelationshipMutation_CREATE
       ''KNOWS'' ''Person'' ''Movie'' [] True =
     [MutationMetaDirective ''KNOWS'' ''Person'' ''Movie'',
      AuthScopeDirective [Scope ''Person'' ''Create'', Scope ''Movie'' ''Create'']]
   \<and> buildRelationshipMutationDirectives scenario_collaborators RelationshipMutation_DELETE
       ''KNOWS'' ''Person'' ''Movie'' [] False =
     [MutationMetaDirective ''KNOWS'' ''Person'' ''Movie'']"
proof -
  let ?d = "scenario_descriptor\<lparr>toType := ''Movie''\<rparr>"
  have h: "scenario_operationTypeMap OperationType_MUTATION = Some scenario_mutationType
      \<and> shouldAugmentRelationshipField scenario_collaborators config ''mutation''
          (fromType ?d) (toType ?d)
      \<and> buildRelationshipMutationName RelationshipMutation_CREATE
          (typeName ?d) (fieldName ?d) = Inr ''AddPersonKnows''
      \<and> getFieldDefinition (ot_fields scenario_mutationType) ''AddPersonKnows'' = None"
    and g: "scenario_operationTypeMap OperationType_MUTATION = Some scenario_mutationType
      \<and> shouldAugmentRelationshipField scenario_collaborators config ''mutation''
          (fromType ?d) (toType ?d)
      \<and> buildRelationshipMutationName RelationshipMutation_DELETE
          (typeName ?d) (fieldName ?d) = Inr ''RemovePersonKnows''
      \<and> getFieldDefinition (ot_fields scenario_mutationType) ''RemovePersonKnows'' = None"
    for config
    using scenario_names
    by (simp_all add: scenario_operationTypeMap_def scenario_collaborators_def
        scenario_mutationType_def getFieldDefinition_def scenario_descriptor_def)
  have on: "useAuthDirective scenario_collaborators True HAS_SCOPE"
    and off: "\<not> useAuthDirective scenario_collaborators False HAS_SCOPE"
    by (simp_all add: scenario_collaborators_def)
  note T = generated_field_directives_meta_first_then_auth [where otm = scenario_operationTypeMap and m = scenario_mutationType
      and X = scenario_collaborators and d = ?d and tdm = "()" and gtm = Map.empty
      and addName = "''AddPersonKnows''" and removeName = "''RemovePersonKnows''"
      and relName = "''KNOWS''" and fromT = "''Person''" and toT = "''Movie''"
      and pofs = "[]" and mutationAction = RelationshipMutation_DELETE]
  from T [where config = True, THEN conjunct2, THEN conjunct2, THEN conjunct2,
        THEN conjunct1, THEN mp, OF h]
    T [where config = True, THEN conjunct2, THEN conjunct2, THEN conjunct2,
        THEN conjunct2, THEN mp, OF g]
    T [where config = False, THEN conjunct2, THEN conjunct2, THEN conjunct2,
        THEN conjunct2, THEN mp, OF g]
    T [where config = True, THEN conjunct2, THEN conjunct1, THEN mp, OF on]
    T [where config = False, THEN conjunct2, THEN conjunct2, THEN conjunct1, THEN mp, OF off]
  show ?thesis
    using on off by (simp add: scenario_descriptor_def)
qed

section \<open>The orchestrator\<close>

text \<open>
  Claim C9. With an empty field name the naming resolver raises a TypeError instead of
  returning a name, and with a Mutation root present and the applicability predicate true
  the whole pass ends with that TypeError: nothing catches it.
\<close>

theorem empty_field_name_raises:
  "buildRelationshipMutationName mutationAction tName [] = Inl TypeError
   \<and> (otm OperationType_MUTATION = Some mutationType
        \<and> shouldAugmentRelationshipField X config ''mutation'' (fromType d) (toType d)
        \<and> fieldName d = [] \<longrightarrow>
        augmentRelationshipMutationAPI X d tdm gtm otm config = Inl TypeError)"
proof -
  have "augmentRelationshipMutationAPI X d tdm gtm otm config = Inl TypeError"
    if "otm OperationType_MUTATION = Some mutationType"
      and "shouldAugmentRelationshipField X config ''mutation'' (fromType d) (toType d)"
      and "fieldName d = []"
    using that by (rule augment_error [where otm = otm])
  then show ?thesis
    by (simp add: buildRelationshipMutationName_Nil)
qed

theorem empty_field_name_scenario:
  "augmentRelationshipMutationAPI scenario_collaborators
     (scenario_descriptor\<lparr>fieldName := []\<rparr>) () Map.empty scenario_operationTypeMap False =
     Inl TypeError"
  using empty_field_name_raises [where otm = scenario_operationTypeMap and mutationType = scenario_mutationType
      and X = scenario_collaborators and config = False
      and d = "scenario_descriptor\<lparr>fieldName := []\<rparr>" and tdm = "()" and gtm = Map.empty]
  by (simp add: scenario_operationTypeMap_def scenario_collaborators_def
      scenario_descriptor_def)

text \<open>
  Claim C8. Without a Mutation entry in the operation-type map, or with the applicability
  predicate false, the pass returns the three registries as they are. Whenever the pass
  returns, the type-definition map in the first slot is the one passed in, and every entry
  of the operation-type map other than the Mutation entry is unchanged.
\<close>

theorem skipped_pass_and_frame:
  "(otm OperationType_MUTATION = None \<or>
    \<not> shouldAugmentRelationshipField X config ''mutation'' (fromType d) (toType d) \<longrightarrow>
      augmentRelationshipMutationAPI X d tdm gtm otm config = Inr (tdm, gtm, otm))
   \<and> (augmentRelationshipMutationAPI X d tdm gtm otm config = Inr (tdm', gtm', otm') \<longrightarrow>
        tdm' = tdm \<and> (\<forall>k. k \<noteq> OperationType_MUTATION \<longrightarrow> otm' k = otm k))"
proof -
  have frame: "tdm' = tdm \<and> (\<forall>k. k \<noteq> OperationType_MUTATION \<longrightarrow> otm' k = otm k)"
    if "augmentRelationshipMutationAPI X d tdm gtm otm config = Inr (tdm', gtm', otm')"
    using augment_Inr_cases [OF that] by auto
  with augment_skip [of otm X config d tdm gtm] show ?thesis by blast
qed

theorem skipped_pass_and_frame_scenario:
  "augmentRelationshipMutationAPI scenario_collaborators scenario_descriptor ()
     scenario_generatedTypeMap1 Map.empty False =
     Inr ((), scenario_generatedTypeMap1, Map.empty)
   \<and> augmentRelationshipMutationAPI
       (scenario_collaborators\<lparr>shouldAugmentRelationshipField := \<lambda>config operation fromT toT. False\<rparr>)
       scenario_descriptor () Map.empty scenario_operationTypeMap False =
     Inr ((), Map.empty, scenario_operationTypeMap)
   \<and> (\<exists>gtm' otm'.
         augmentRelationshipMutationAPI scenario_collaborators scenario_descriptor ()
           Map.empty (scenario_operationTypeMap(''Query'' \<mapsto> scenario_mutationType)) False =
           Inr ((), gtm', otm')
         \<and> otm' ''Query'' = Some scenario_mutationType)"
proof -
  let ?otm = "scenario_operationTypeMap(''Query'' \<mapsto> scenario_mutationType)"
  have skip1: "augmentRelationshipMutationAPI scenario_collaborators scenario_descriptor ()
     scenario_generatedTypeMap1 Map.empty False =
     Inr ((), scenario_generatedTypeMap1, Map.empty)"
    using skipped_pass_and_frame
      [where X = scenario_collaborators and d = scenario_descriptor and tdm = "()"
         and config = False and otm = Map.empty and gtm = scenario_generatedTypeMap1]
    by simp
  have skip2: "augmentRelationshipMutationAPI
       (scenario_collaborators\<lparr>shouldAugmentRelationshipField := \<lambda>config operation fromT toT. False\<rparr>)
       scenario_descriptor () Map.empty scenario_operationTypeMap False =
     Inr ((), Map.empty, scenario_operationTypeMap)"
    using skipped_pass_and_frame
      [where X = "scenario_collaborators\<lparr>shouldAugmentRelationshipField :=
                    \<lambda>config operation fromT toT. False\<rparr>"
         and d = scenario_descriptor and tdm = "()" and config = False
         and otm = scenario_operationTypeMap and gtm = Map.empty]
    by simp
  have m: "?otm OperationType_MUTATION = Some scenario_mutationType"
    by (simp add: scenario_operationTypeMap_def OperationType_MUTATION_def)
  have s: "shouldAugmentRelationshipField scenario_collaborators False ''mutation''
             (fromType scenario_descriptor) (toType scenario_descriptor)"
    by (simp add: scenario_collaborators_def)
  from augment_twice_core
    [where otm = ?otm and tdm = "()" and gtm = Map.empty, OF m s scenario_names]
  obtain gtm2 otm2 where
    run: "augmentRelationshipMutationAPI scenario_collaborators scenario_descriptor ()
            Map.empty ?otm False = Inr ((), gtm2, otm2)"
    by blast
  from skipped_pass_and_frame
    [where X = scenario_collaborators and d = scenario_descriptor and tdm = "()"
       and config = False and otm = ?otm and gtm = Map.empty and tdm' = "()"
       and gtm' = gtm2 and otm' = otm2] run
  have "otm2 ''Query'' = Some scenario_mutationType"
    by (simp add: OperationType_MUTATION_def)
  with run skip1 skip2 show ?thesis by blast
qed

text \<open>
  Claim C1. A second call with the same descriptor on the registries the first call
  returned gives these registries back: no Mutation field and no generated type is added.
  When the pass applies and the Mutation field list it starts from holds each of the two
  computed names at most once, the field list after the two calls holds exactly one field
  named by the Add name and exactly one named by the Remove name.
\<close>

theorem second_call_adds_nothing:
  "(augmentRelationshipMutationAPI X d tdm gtm otm config = Inr (tdm', gtm', otm') \<longrightarrow>
      augmentRelationshipMutationAPI X d tdm' gtm' otm' config = Inr (tdm', gtm', otm'))
   \<and> (otm OperationType_MUTATION = Some m
        \<and> shouldAugmentRelationshipField X config ''mutation'' (fromType d) (toType d)
        \<and> buildRelationshipMutationName RelationshipMutation_CREATE (typeName d) (fieldName d) =
            Inr addName
        \<and> buildRelationshipMutationName RelationshipMutation_DELETE (typeName d) (fieldName d) =
            Inr removeName
        \<and> length (filter (\<lambda>field. name_value (fd_name field) = addName) (ot_fields m)) \<le> 1
        \<and> length (filter (\<lambda>field. name_value (fd_name field) = removeName) (ot_fields m)) \<le> 1
        \<longrightarrow>
        (\<exists>gtm2 otm2 m2.
           augmentRelationshipMutationAPI X d tdm gtm otm config = Inr (tdm, gtm2, otm2)
           \<and> augmentRelationshipMutationAPI X d tdm gtm2 otm2 config = Inr (tdm, gtm2, otm2)
           \<and> otm2 OperationType_MUTATION = Some m2
           \<and> length (filter (\<lambda>field. name_value (fd_name field) = addName) (ot_fields m2)) = 1
           \<and> length (filter (\<lambda>field. name_value (fd_name field) = removeName) (ot_fields m2))
               = 1))"
proof (intro conjI impI)
  assume "augmentRelationshipMutationAPI X d tdm gtm otm config = Inr (tdm', gtm', otm')"
  from augment_Inr_cases [OF this]
  show "augmentRelationshipMutationAPI X d tdm' gtm' otm' config = Inr (tdm', gtm', otm')"
    by blast
next
  let ?cnt = "\<lambda>k fs. length (filter (\<lambda>field. name_value (fd_name field) = k) fs)"
  assume h: "otm OperationType_MUTATION = Some m
        \<and> shouldAugmentRelationshipField X config ''mutation'' (fromType d) (toType d)
        \<and> buildRelationshipMutationName RelationshipMutation_CREATE (typeName d) (fieldName d) =
            Inr addName
        \<and> buildRelationshipMutationName RelationshipMutation_DELETE (typeName d) (fieldName d) =
            Inr removeName
        \<and> ?cnt addName (ot_fields m) \<le> 1
        \<and> ?cnt removeName (ot_fields m) \<le> 1"
  then have m: "otm OperationType_MUTATION = Some m"
    and s: "shouldAugmentRelationshipField X config ''mutation'' (fromType d) (toType d)"
    and nA: "buildRelationshipMutationName RelationshipMutation_CREATE (typeName d) (fieldName d)
               = Inr addName"
    and nD: "buildRelationshipMutationName RelationshipMutation_DELETE (typeName d) (fieldName d)
               = Inr removeName"
    and leA: "?cnt addName (ot_fields m) \<le> 1"
    and leD: "?cnt removeName (ot_fields m) \<le> 1"
    by simp_all
  have ne: "addName \<noteq> removeName"
    using nA nD by (rule mutation_names_distinct)
  from augment_twice_core [where otm = otm and tdm = tdm and gtm = gtm, OF m s nA nD]
  obtain gtm2 m2 where
    first: "augmentRelationshipMutationAPI X d tdm gtm otm config =
              Inr (tdm, gtm2, otm(OperationType_MUTATION \<mapsto> m2))"
    and second: "augmentRelationshipMutationAPI X d tdm gtm2
                   (otm(OperationType_MUTATION \<mapsto> m2)) config =
                 Inr (tdm, gtm2, otm(OperationType_MUTATION \<mapsto> m2))"
    and cnt: "\<And>k. ?cnt k (ot_fields m2) = ?cnt k (ot_fields m) +
                (if k = addName \<and> getFieldDefinition (ot_fields m) addName = None
                 then 1 else 0) +
                (if k = removeName \<and> getFieldDefinition (ot_fields m) removeName = None
                 then 1 else 0)"
    by blast
  have bump: "x + (if x = 0 then 1 else 0) = 1" if "x \<le> 1" for x :: nat
    using that by (cases x) simp_all
  have "?cnt addName (ot_fields m2) =
          ?cnt addName (ot_fields m) + (if ?cnt addName (ot_fields m) = 0 then 1 else 0)"
    unfolding cnt getFieldDefinition_None_iff using ne by simp
  with bump [OF leA] have oneA: "?cnt addName (ot_fields m2) = 1"
    by (simp only:)
  have "?cnt removeName (ot_fields m2) =
          ?cnt removeName (ot_fields m) + (if ?cnt removeName (ot_fields m) = 0 then 1 else 0)"
    unfolding cnt getFieldDefinition_None_iff using ne by simp
  with bump [OF leD] have oneD: "?cnt removeName (ot_fields m2) = 1"
    by (simp only:)
  from first second oneA oneD
  show "\<exists>gtm2 otm2 m2.
           augmentRelationshipMutationAPI X d tdm gtm otm config = Inr (tdm, gtm2, otm2)
           \<and> augmentRelationshipMutationAPI X d tdm gtm2 otm2 config = Inr (tdm, gtm2, otm2)
           \<and> otm2 OperationType_MUTATION = Some m2
           \<and> ?cnt addName (ot_fields m2) = 1
           \<and> ?cnt removeName (ot_fields m2) = 1"
    by (intro exI [of _ gtm2] exI [of _ "otm(OperationType_MUTATION \<mapsto> m2)"] exI [of _ m2])
      simp
qed

theorem second_call_scenario:
  "augmentRelationshipMutationAPI scenario_collaborators scenario_descriptor ()
     scenario_generatedTypeMap1 scenario_operationTypeMap1 False =
     Inr ((), scenario_generatedTypeMap1, scenario_operationTypeMap1)
   \<and> (\<exists>gtm2 otm2 m2.
         augmentRelationshipMutationAPI scenario_collaborators scenario_descriptor ()
           Map.empty scenario_operationTypeMap False = Inr ((), gtm2, otm2)
         \<and> augmentRelationshipMutationAPI scenario_collaborators scenario_descriptor ()
             gtm2 otm2 False = Inr ((), gtm2, otm2)
         \<and> otm2 OperationType_MUTATION = Some m2
         \<and> length (filter (\<lambda>field. name_value (fd_name field) = ''AddPersonKnows'')
                      (ot_fields m2)) = 1
         \<and> length (filter (\<lambda>field. name_value (fd_name field) = ''RemovePersonKnows'')
                      (ot_fields m2)) = 1)"
  using second_call_adds_nothing
    [where X = scenario_collaborators and d = scenario_descriptor and tdm = "()"
       and gtm = Map.empty and otm = scenario_operationTypeMap and config = False
       and tdm' = "()" and gtm' = scenario_generatedTypeMap1
       and otm' = scenario_operationTypeMap1 and m = scenario_mutationType
       and addName = "''AddPersonKnows''" and removeName = "''RemovePersonKnows''"]
    scenario_run scenario_names
  by (simp add: scenario_operationTypeMap_def scenario_mutationType_def
      scenario_collaborators_def)

text \<open>
  Claim C6. Every payload type the pass synthesizes carries exactly one directive, the
  relation directive built from the relationship name, the from type and the to type of
  the descriptor: for either action whose field name is not yet in the Mutation field
  list, the pass returns a generated-type map whose entry \<open>_<mutationName>Payload\<close> is an
  object type with that single directive.
\<close>

theorem payload_carries_the_relation_directive:
  assumes m: "otm OperationType_MUTATION = Some m"
    and s: "shouldAugmentRelationshipField X config ''mutation'' (fromType d) (toType d)"
    and a: "a = RelationshipMutation_CREATE \<or> a = RelationshipMutation_DELETE"
    and n: "buildRelationshipMutationName a (typeName d) (fieldName d) = Inr n"
    and absent: "getFieldDefinition (ot_fields m) n = None"
  shows "\<exists>gtm2 otm2 p.
           augmentRelationshipMutationAPI X d tdm gtm otm config = Inr (tdm, gtm2, otm2)
           \<and> gtm2 (''_'' @ n @ ''Payload'') = Some (ObjectTypeDef p)
           \<and> ot_directives p =
               [RelationDirective (relationshipName d) (fromType d) (toType d)]"
proof -
  from n obtain c cs where f: "fieldName d = c # cs"
    by (cases "fieldName d") (simp_all add: buildRelationshipMutationName_Nil)
  define addName where "addName = RelationshipMutation_CREATE @ typeName d @ toUpperCase_char c @ cs"
  define removeName where
    "removeName = RelationshipMutation_DELETE @ typeName d @ toUpperCase_char c @ cs"
  have nA: "buildRelationshipMutationName RelationshipMutation_CREATE (typeName d) (fieldName d)
              = Inr addName"
    by (simp add: f addName_def buildRelationshipMutationName_Cons)
  have nD: "buildRelationshipMutationName RelationshipMutation_DELETE (typeName d) (fieldName d)
              = Inr removeName"
    by (simp add: f removeName_def buildRelationshipMutationName_Cons)
  have ne: "addName \<noteq> removeName"
    using nA nD by (rule mutation_names_distinct)
  have cd: "RelationshipMutation_CREATE = RelationshipMutation_CREATE \<or>
            RelationshipMutation_CREATE = RelationshipMutation_DELETE"
    and dd: "RelationshipMutation_DELETE = RelationshipMutation_CREATE \<or>
             RelationshipMutation_DELETE = RelationshipMutation_DELETE"
    by simp_all
  obtain m1 gtm1 where
    step1: "mutationAction_callback X d config RelationshipMutation_CREATE (otm, gtm) =
              Inr (otm(OperationType_MUTATION \<mapsto> m1), gtm1)"
    and cnt1: "\<And>k. length (filter (\<lambda>field. name_value (fd_name field) = k) (ot_fields m1)) =
                 length (filter (\<lambda>field. name_value (fd_name field) = k) (ot_fields m)) +
                 (if k = addName \<and> getFieldDefinition (ot_fields m) addName = None
                  then 1 else 0)"
    using callback_step [where otm = otm and gtm = gtm and X = X and config = config,
        OF nA m cd] by blast
  have m1: "(otm(OperationType_MUTATION \<mapsto> m1)) OperationType_MUTATION = Some m1"
    by simp
  obtain m2 gtm2 where
    step2: "mutationAction_callback X d config RelationshipMutation_DELETE
              (otm(OperationType_MUTATION \<mapsto> m1), gtm1) =
              Inr (otm(OperationType_MUTATION \<mapsto> m2), gtm2)"
    using callback_step [where otm = "otm(OperationType_MUTATION \<mapsto> m1)" and gtm = gtm1
        and X = X and config = config, OF nD m1 dd] by auto
  have res: "augmentRelationshipMutationAPI X d tdm gtm otm config =
               Inr (tdm, gtm2, otm(OperationType_MUTATION \<mapsto> m2))"
    by (simp add: augment_unfold [where otm = otm, OF m s] step1 step2)
  have "\<exists>p. gtm2 (''_'' @ n @ ''Payload'') = Some (ObjectTypeDef p)
           \<and> ot_directives p =
               [RelationDirective (relationshipName d) (fromType d) (toType d)]"
    using a
  proof
    assume c: "a = RelationshipMutation_CREATE"
    with n nA have nn: "n = addName" by simp
    from callback_gtm_payload
      [where otm = otm, OF nA m cd absent [unfolded nn] step1]
    obtain p where p: "gtm1 (''_'' @ addName @ ''Payload'') = Some (ObjectTypeDef p)"
      "ot_directives p = [RelationDirective (relationshipName d) (fromType d) (toType d)]"
      by blast
    have "gtm2 (''_'' @ addName @ ''Payload'') = gtm1 (''_'' @ addName @ ''Payload'')"
      by (rule callback_gtm_frame
          [where otm = "otm(OperationType_MUTATION \<mapsto> m1)", OF nD m1 dd _ _ step2])
        (use ne CREATE_neq_DELETE in simp_all)
    with p nn show ?thesis by simp
  next
    assume c: "a = RelationshipMutation_DELETE"
    with n nD have nn: "n = removeName" by simp
    have "getFieldDefinition (ot_fields m1) removeName = None"
      using ne absent [unfolded nn]
      by (simp only: getFieldDefinition_None_iff cnt1) simp
    from callback_gtm_payload
      [where otm = "otm(OperationType_MUTATION \<mapsto> m1)", OF nD m1 dd this step2]
    show ?thesis by (simp only: nn)
  qed
  with res show ?thesis by blast
qed

theorem payload_directive_scenario:
  "\<exists>gtm2 otm2 p q.
     augmentRelationshipMutationAPI scenario_collaborators scenario_descriptor () Map.empty
       scenario_operationTypeMap False = Inr ((), gtm2, otm2)
     \<and> gtm2 ''_AddPersonKnowsPayload'' = Some (ObjectTypeDef p)
     \<and> ot_directives p = [RelationDirective ''KNOWS'' ''Person'' ''Person'']
     \<and> gtm2 ''_RemovePersonKnowsPayload'' = Some (ObjectTypeDef q)
     \<and> ot_directives q = [RelationDirective ''KNOWS'' ''Person'' ''Person'']"
proof -
  have m: "scenario_operationTypeMap OperationType_MUTATION = Some scenario_mutationType"
    by (simp add: scenario_operationTypeMap_def)
  have s: "shouldAugmentRelationshipField scenario_collaborators False ''mutation''
             (fromType scenario_descriptor) (toType scenario_descriptor)"
    by (simp add: scenario_collaborators_def)
  have nA: "buildRelationshipMutationName RelationshipMutation_CREATE
              (typeName scenario_descriptor) (fieldName scenario_descriptor) =
            Inr ''AddPersonKnows''"
    and nD: "buildRelationshipMutationName RelationshipMutation_DELETE
              (typeName scenario_descriptor) (fieldName scenario_descriptor) =
            Inr ''RemovePersonKnows''"
    by (simp_all add: scenario_descriptor_def buildRelationshipMutationName_Cons
        toUpperCase_char_k RelationshipMutation_CREATE_def RelationshipMutation_DELETE_def)
  have absent: "getFieldDefinition (ot_fields scenario_mutationType) k = None" for k
    by (simp add: scenario_mutationType_def getFieldDefinition_def)
  from payload_carries_the_relation_directive [where otm = scenario_operationTypeMap and tdm = "()" and gtm = Map.empty,
      OF m s _ nA absent]
    payload_carries_the_relation_directive [where otm = scenario_operationTypeMap and tdm = "()" and gtm = Map.empty,
      OF m s _ nD absent]
  show ?thesis
    by (auto simp add: scenario_descriptor_def)
qed

text \<open>
  Claim C10. The \<open>data\<close> argument and the input type it names are gated on different
  lists. For a descriptor with a property output field and no property input value,
  whose Add field is not yet in the Mutation field list, the pass registers the Add field
  with the arguments \<open>from\<close>, \<open>to\<close> and \<open>data\<close>, the last typed as the non-null
  \<open>_<outputType>Input\<close>, and leaves the entry \<open>_<outputType>Input\<close> of the generated-type
  map as it found it: the pass does not define the type the argument names.
\<close>

theorem data_argument_names_an_unwritten_type:
  assumes m: "otm OperationType_MUTATION = Some m"
    and s: "shouldAugmentRelationshipField X config ''mutation'' (fromType d) (toType d)"
    and nA: "buildRelationshipMutationName RelationshipMutation_CREATE (typeName d) (fieldName d)
               = Inr addName"
    and absent: "getFieldDefinition (ot_fields m) addName = None"
    and pofs: "propertyOutputFields d \<noteq> []"
    and pivs: "propertyInputValues d = []"
  shows "\<exists>gtm2 otm2 m2 field.
           augmentRelationshipMutationAPI X d tdm gtm otm config = Inr (tdm, gtm2, otm2)
           \<and> otm2 OperationType_MUTATION = Some m2
           \<and> getFieldDefinition (ot_fields m2) addName = Some field
           \<and> fd_arguments field =
               [\<lparr>iv_name = NameNode ''from'',
                 iv_type = NamedTypeNode (NameNode (''_'' @ fromType d @ ''Input''))
                             {NON_NULL_NAMED_TYPE},
                 iv_directives = []\<rparr>,
                \<lparr>iv_name = NameNode ''to'',
                 iv_type = NamedTypeNode (NameNode (''_'' @ toType d @ ''Input''))
                             {NON_NULL_NAMED_TYPE},
                 iv_directives = []\<rparr>,
                \<lparr>iv_name = NameNode ''data'',
                 iv_type = NamedTypeNode (NameNode (''_'' @ outputType d @ ''Input''))
                             {NON_NULL_NAMED_TYPE},
                 iv_directives = []\<rparr>]
           \<and> gtm2 (''_'' @ outputType d @ ''Input'') = gtm (''_'' @ outputType d @ ''Input'')"
proof -
  from nA obtain c cs where f: "fieldName d = c # cs"
    by (cases "fieldName d") (simp_all add: buildRelationshipMutationName_Nil)
  define removeName where
    "removeName = RelationshipMutation_DELETE @ typeName d @ toUpperCase_char c @ cs"
  have nD: "buildRelationshipMutationName RelationshipMutation_DELETE (typeName d) (fieldName d)
              = Inr removeName"
    by (simp add: f removeName_def buildRelationshipMutationName_Cons)
  have cd: "RelationshipMutation_CREATE = RelationshipMutation_CREATE \<or>
            RelationshipMutation_CREATE = RelationshipMutation_DELETE"
    and dd: "RelationshipMutation_DELETE = RelationshipMutation_CREATE \<or>
             RelationshipMutation_DELETE = RelationshipMutation_DELETE"
    by simp_all
  define field where
    "field = \<lparr>fd_name = NameNode addName,
               fd_type = NamedTypeNode (NameNode (''_'' @ addName @ ''Payload'')) {},
               fd_arguments = buildRelationshipMutationArguments RelationshipMutation_CREATE
                                (fromType d) (toType d) (propertyOutputFields d) (outputType d),
               fd_directives = buildRelationshipMutationDirectives X
                                 RelationshipMutation_CREATE (relationshipName d) (fromType d)
                                 (toType d) (propertyOutputFields d) config\<rparr>"
  define m1 where "m1 = m\<lparr>ot_fields := ot_fields m @ [field]\<rparr>"
  define gtm1 where
    "gtm1 = buildRelationshipMutationOutputType X RelationshipMutation_CREATE
              (''_'' @ addName @ ''Payload'') (propertyOutputFields d) (relationshipName d)
              (fromType d) (toType d)
              (buildRelationshipMutationPropertyInputType RelationshipMutation_CREATE
                 (outputType d) (propertyInputValues d) gtm)"
  have step1: "mutationAction_callback X d config RelationshipMutation_CREATE (otm, gtm) =
                 Inr (otm(OperationType_MUTATION \<mapsto> m1), gtm1)"
    unfolding m1_def gtm1_def field_def
    by (rule callback_run [where otm = otm, OF nA m absent cd])
  have m1: "(otm(OperationType_MUTATION \<mapsto> m1)) OperationType_MUTATION = Some m1"
    by simp
  obtain m2 gtm2 ext where
    step2: "mutationAction_callback X d config RelationshipMutation_DELETE
              (otm(OperationType_MUTATION \<mapsto> m1), gtm1) =
              Inr (otm(OperationType_MUTATION \<mapsto> m2), gtm2)"
    and ext: "ot_fields m2 = ot_fields m1 @ ext"
    using callback_fields [where otm = "otm(OperationType_MUTATION \<mapsto> m1)" and gtm = gtm1
        and X = X and config = config, OF nD m1 dd] by auto
  have res: "augmentRelationshipMutationAPI X d tdm gtm otm config =
               Inr (tdm, gtm2, otm(OperationType_MUTATION \<mapsto> m2))"
    by (simp add: augment_unfold [where otm = otm, OF m s] step1 step2)
  have found: "getFieldDefinition (ot_fields m2) addName = Some field"
    using absent
    by (simp add: ext m1_def getFieldDefinition_append)
      (simp add: getFieldDefinition_def field_def)
  have args: "fd_arguments field =
               [\<lparr>iv_name = NameNode ''from'',
                 iv_type = NamedTypeNode (NameNode (''_'' @ fromType d @ ''Input''))
                             {NON_NULL_NAMED_TYPE},
                 iv_directives = []\<rparr>,
                \<lparr>iv_name = NameNode ''to'',
                 iv_type = NamedTypeNode (NameNode (''_'' @ toType d @ ''Input''))
                             {NON_NULL_NAMED_TYPE},
                 iv_directives = []\<rparr>,
                \<lparr>iv_name = NameNode ''data'',
                 iv_type = NamedTypeNode (NameNode (''_'' @ outputType d @ ''Input''))
                             {NON_NULL_NAMED_TYPE},
                 iv_directives = []\<rparr>]"
    using pofs
    by (simp add: field_def buildRelationshipMutationArguments_def
        buildNodeSelectionArguments_def buildRelationshipPropertyInputArgument_def
        buildInputValue_def buildName_def buildNamedType_def
        RelationshipDirectionField_FROM_def RelationshipDirectionField_TO_def)
  have "gtm1 (''_'' @ outputType d @ ''Input'') = gtm (''_'' @ outputType d @ ''Input'')"
    by (rule callback_gtm_frame [where otm = otm, OF nA m cd _ _ step1])
      (use pivs Input_neq_Payload in simp_all)
  moreover
  have "gtm2 (''_'' @ outputType d @ ''Input'') = gtm1 (''_'' @ outputType d @ ''Input'')"
    by (rule callback_gtm_frame
        [where otm = "otm(OperationType_MUTATION \<mapsto> m1)", OF nD m1 dd _ _ step2])
      (use pivs Input_neq_Payload in simp_all)
  ultimately
  have untouched: "gtm2 (''_'' @ outputType d @ ''Input'') = gtm (''_'' @ outputType d @ ''Input'')"
    by simp
  from res found args untouched show ?thesis
    by (intro exI [of _ gtm2] exI [of _ "otm(OperationType_MUTATION \<mapsto> m2)"]
        exI [of _ m2] exI [of _ field]) simp
qed

theorem data_argument_scenario:
  "\<exists>gtm2 otm2 m2 field.
     augmentRelationshipMutationAPI scenario_collaborators
       (scenario_descriptor\<lparr>propertyInputValues := []\<rparr>) () Map.empty
       scenario_operationTypeMap False = Inr ((), gtm2, otm2)
     \<and> otm2 OperationType_MUTATION = Some m2
     \<and> getFieldDefinition (ot_fields m2) ''AddPersonKnows'' = Some field
     \<and> fd_arguments field =
         [\<lparr>iv_name = NameNode ''from'',
           iv_type = NamedTypeNode (NameNode ''_PersonInput'') {NON_NULL_NAMED_TYPE},
           iv_directives = []\<rparr>,
          \<lparr>iv_name = NameNode ''to'',
           iv_type = NamedTypeNode (NameNode ''_PersonInput'') {NON_NULL_NAMED_TYPE},
           iv_directives = []\<rparr>,
          \<lparr>iv_name = NameNode ''data'',
           iv_type = NamedTypeNode (NameNode ''_KnowsInput'') {NON_NULL_NAMED_TYPE},
           iv_directives = []\<rparr>]
     \<and> gtm2 ''_KnowsInput'' = None"
proof -
  let ?d = "scenario_descriptor\<lparr>propertyInputValues := []\<rparr>"
  have m: "scenario_operationTypeMap OperationType_MUTATION = Some scenario_mutationType"
    by (simp add: scenario_operationTypeMap_def)
  have s: "shouldAugmentRelationshipField scenario_collaborators False ''mutation''
             (fromType ?d) (toType ?d)"
    by (simp add: scenario_collaborators_def)
  have nA: "buildRelationshipMutationName RelationshipMutation_CREATE (typeName ?d)
              (fieldName ?d) = Inr ''AddPersonKnows''"
    by (simp add: scenario_descriptor_def buildRelationshipMutationName_Cons
        toUpperCase_char_k RelationshipMutation_CREATE_def)
  have absent: "getFieldDefinition (ot_fields scenario_mutationType) ''AddPersonKnows'' = None"
    by (simp add: scenario_mutationType_def getFieldDefinition_def)
  have pofs: "propertyOutputFields ?d \<noteq> []"
    by (simp add: scenario_descriptor_def)
  have pivs: "propertyInputValues ?d = []"
    by simp
  from data_argument_names_an_unwritten_type [where otm = scenario_operationTypeMap and tdm = "()" and gtm = Map.empty,
      OF m s nA absent pofs pivs]
  show ?thesis
    by (simp add: scenario_descriptor_def)
qed

end
